theory Spec2Isabelle
  imports Complex_Main "HOL-Library.Word" "HOL-Library.Sublist"
begin

unbundle bit_operations_syntax

section \<open>JavaScript strings, bytes and the platform functions the route calls\<close>

text \<open>
  A JavaScript string is a sequence of 16-bit code units; the body of the backend's
  response arrives as chunks of bytes. \<open>js\<close> writes an ASCII literal of the source as
  such a string.
\<close>

type_synonym byte = "8 word"
type_synonym jsstring = "16 word list"

definition js :: "string \<Rightarrow> jsstring" where
  "js s = map of_char s"

text \<open>
  \<open>String.prototype.trim\<close> removes the code units of WhiteSpace and LineTerminator
  from both ends.
\<close>

definition isWhiteSpace :: "16 word \<Rightarrow> bool" where
  "isWhiteSpace c \<longleftrightarrow>
     c = 0x09 \<or> c = 0x0A \<or> c = 0x0B \<or> c = 0x0C \<or> c = 0x0D \<or> c = 0x20 \<or> c = 0xA0 \<or>
     c = 0x1680 \<or> (0x2000 \<le> c \<and> c \<le> 0x200A) \<or> c = 0x2028 \<or> c = 0x2029 \<or>
     c = 0x202F \<or> c = 0x205F \<or> c = 0x3000 \<or> c = 0xFEFF"

definition trim :: "jsstring \<Rightarrow> jsstring" where
  "trim s = rev (dropWhile isWhiteSpace (rev (dropWhile isWhiteSpace s)))"

text \<open>
  \<open>s.split("\n")\<close>: the pieces of \<open>s\<close> between line feeds. The result is never
  empty: a string without a line feed is its own single piece.
\<close>

fun splitLines :: "jsstring \<Rightarrow> jsstring list" where
  "splitLines [] = [[]]"
| "splitLines (c # cs) =
     (if c = 0x0A then [] # splitLines cs
      else (case splitLines cs of
              l # ls \<Rightarrow> (c # l) # ls
            | [] \<Rightarrow> [[c]]))"

subsection \<open>TextDecoder: the streaming UTF-8 decoder\<close>

text \<open>
  \<open>new TextDecoder()\<close> holds the UTF-8 decoder of the Encoding standard, not fatal,
  the byte order mark not ignored. Its state outlives a call of
  \<open>decode(value, { stream: true })\<close>: the decoder's code point under construction,
  the bytes seen and needed and the bounds of the next continuation byte, and the
  flag that the first scalar value (a byte order mark is dropped there) has been
  passed.
\<close>

record utf8_decoder =
  codePoint :: "32 word"
  bytesSeen :: nat
  bytesNeeded :: nat
  lowerBoundary :: byte
  upperBoundary :: byte

record text_decoder =
  utf8 :: utf8_decoder
  bomSeen :: bool

definition newTextDecoder :: text_decoder where
  "newTextDecoder =
     \<lparr>utf8 = \<lparr>codePoint = 0, bytesSeen = 0, bytesNeeded = 0,
              lowerBoundary = 0x80, upperBoundary = 0xBF\<rparr>,
      bomSeen = False\<rparr>"

text \<open>The handler on a byte when no bytes are needed: a lead byte or an ASCII byte.\<close>

definition utf8Lead :: "utf8_decoder \<Rightarrow> byte \<Rightarrow> utf8_decoder \<times> 32 word list" where
  "utf8Lead d b =
     (if b \<le> 0x7F then (d, [ucast b])
      else if 0xC2 \<le> b \<and> b \<le> 0xDF then
        (d\<lparr>codePoint := ucast (b AND 0x1F), bytesNeeded := 1\<rparr>, [])
      else if 0xE0 \<le> b \<and> b \<le> 0xEF then
        (d\<lparr>codePoint := ucast (b AND 0x0F), bytesNeeded := 2,
           lowerBoundary := (if b = 0xE0 then 0xA0 else lowerBoundary d),
           upperBoundary := (if b = 0xED then 0x9F else upperBoundary d)\<rparr>, [])
      else if 0xF0 \<le> b \<and> b \<le> 0xF4 then
        (d\<lparr>codePoint := ucast (b AND 0x07), bytesNeeded := 3,
           lowerBoundary := (if b = 0xF0 then 0x90 else lowerBoundary d),
           upperBoundary := (if b = 0xF4 then 0x8F else upperBoundary d)\<rparr>, [])
      else (d, [0xFFFD]))"

text \<open>
  The handler on any byte. A byte outside the bounds ends the sequence with U+FFFD
  and is read again as a lead byte; the last continuation byte gives the code point.
\<close>

definition utf8Handler :: "utf8_decoder \<Rightarrow> byte \<Rightarrow> utf8_decoder \<times> 32 word list" where
  "utf8Handler d b =
     (if bytesNeeded d = 0 then utf8Lead d b
      else if b < lowerBoundary d \<or> upperBoundary d < b then
        (let d0 = d\<lparr>codePoint := 0, bytesSeen := 0, bytesNeeded := 0,
                     lowerBoundary := 0x80, upperBoundary := 0xBF\<rparr>;
             (d1, out) = utf8Lead d0 b
         in (d1, 0xFFFD # out))
      else
        (let cp = push_bit 6 (codePoint d) OR ucast (b AND 0x3F);
             seen = bytesSeen d + 1
         in if seen \<noteq> bytesNeeded d then
              (d\<lparr>codePoint := cp, bytesSeen := seen,
                 lowerBoundary := 0x80, upperBoundary := 0xBF\<rparr>, [])
            else
              (d\<lparr>codePoint := 0, bytesSeen := 0, bytesNeeded := 0,
                 lowerBoundary := 0x80, upperBoundary := 0xBF\<rparr>, [cp])))"

fun decodeBytes :: "utf8_decoder \<Rightarrow> byte list \<Rightarrow> utf8_decoder \<times> 32 word list" where
  "decodeBytes d [] = (d, [])"
| "decodeBytes d (b # bs) =
     (let (d1, out1) = utf8Handler d b;
          (d2, out2) = decodeBytes d1 bs
      in (d2, out1 @ out2))"

text \<open>A scalar value as the code units of a string: itself, or a surrogate pair.\<close>

definition utf16 :: "32 word \<Rightarrow> jsstring" where
  "utf16 c =
     (if c < 0x10000 then [ucast c]
      else (let v = c - 0x10000
            in [0xD800 + ucast (drop_bit 10 v), 0xDC00 + ucast (v AND 0x3FF)]))"

text \<open>
  Serialising the scalar values of a call: the first scalar value the decoder ever
  passes is dropped when it is the byte order mark U+FEFF.
\<close>

fun serialize :: "bool \<Rightarrow> 32 word list \<Rightarrow> bool \<times> jsstring" where
  "serialize seen [] = (seen, [])"
| "serialize seen (c # cs) =
     (let (seen', out) = serialize True cs
      in (seen', (if \<not> seen \<and> c = 0xFEFF then [] else utf16 c) @ out))"

text \<open>
  \<open>decoder.decode(value, { stream: true })\<close>: the bytes of an incomplete sequence
  at the end of \<open>value\<close> stay in the decoder for the next call.
\<close>

definition decode :: "text_decoder \<Rightarrow> byte list \<Rightarrow> text_decoder \<times> jsstring" where
  "decode d v =
     (let (u, cps) = decodeBytes (utf8 d) v;
          (seen, s) = serialize (bomSeen d) cps
      in (\<lparr>utf8 = u, bomSeen = seen\<rparr>, s))"

subsection \<open>JSON values\<close>

text \<open>
  What \<open>JSON.parse\<close> returns. \<open>JSON.parse\<close> itself is the platform's: every function
  below takes it as the parameter \<open>parse\<close>, \<open>None\<close> where it throws a SyntaxError.
  An object lists each of its keys once. A number is given by its value.
\<close>

datatype json =
    JNull
  | JBool bool
  | JNum rat
  | JStr jsstring
  | JArr "json list"
  | JObj "(jsstring \<times> json) list"

type_synonym json_parse = "jsstring \<Rightarrow> json option"

text \<open>
  Reading the property \<open>k\<close> of a value that is not \<open>null\<close>, \<open>None\<close> for
  \<open>undefined\<close>. Of the names the route reads (\<open>type\<close>, \<open>content\<close>, \<open>node\<close>,
  \<open>error\<close>, \<open>agent\<close>, \<open>messages\<close>, \<open>output\<close>), none is a property of a string, a
  number, a boolean or an array.
\<close>

fun getProp :: "json \<Rightarrow> jsstring \<Rightarrow> json option" where
  "getProp (JObj kvs) k = map_of kvs k"
| "getProp _ k = None"

fun truthy :: "json \<Rightarrow> bool" where
  "truthy JNull = False"
| "truthy (JBool b) = b"
| "truthy (JNum n) = (n \<noteq> 0)"
| "truthy (JStr s) = (s \<noteq> [])"
| "truthy (JArr xs) = True"
| "truthy (JObj kvs) = True"

section \<open>The events of the UI message stream\<close>

text \<open>
  An event stands for the frame \<open>data: JSON\n\n\<close> that carries it (\<open>Done\<close> for
  \<open>data: [DONE]\n\n\<close>). The first route writes \<open>Start\<close>, \<open>TextStart\<close>,
  \<open>TextDelta\<close>, \<open>TextEnd\<close>, \<open>Finish\<close>, \<open>ErrorEvent\<close>, \<open>Heartbeat\<close> and \<open>Done\<close>; the
  second route writes \<open>MessageStart\<close>, \<open>TextDeltaPlain\<close> (a \<open>text-delta\<close> with the
  field \<open>textDelta\<close> and no id), \<open>Finish\<close> and \<open>ChatTitle\<close>. The timestamp of a
  heartbeat is the wall clock's and is left out.
\<close>

datatype event =
    Start jsstring
  | TextStart jsstring
  | TextDelta jsstring jsstring
  | TextEnd jsstring
  | Finish jsstring
  | ErrorEvent json
  | Heartbeat
  | Done
  | MessageStart jsstring
  | TextDeltaPlain jsstring
  | ChatTitle jsstring

fun isTextDelta :: "event \<Rightarrow> bool" where
  "isTextDelta (TextDelta i delta) = True"
| "isTextDelta (TextDeltaPlain delta) = True"
| "isTextDelta ev = False"

fun isFinish :: "event \<Rightarrow> bool" where
  "isFinish (Finish reason) = True"
| "isFinish ev = False"

section \<open>transformBackendStream (first route)\<close>

text \<open>
  \<open>parsed.content && typeof parsed.content === "string"\<close>: the content when it is a
  string that is not empty.
\<close>

definition contentString :: "json \<Rightarrow> jsstring option" where
  "contentString parsed =
     (case getProp parsed (js ''content'') of
        Some (JStr content) \<Rightarrow> if content \<noteq> [] then Some content else None
      | _ \<Rightarrow> None)"

definition isAgentNode :: "json \<Rightarrow> bool" where
  "isAgentNode parsed \<longleftrightarrow>
     getProp parsed (js ''node'') = Some (JStr (js ''agent'')) \<or>
     getProp parsed (js ''node'') = Some (JStr (js ''model''))"

text \<open>
  The payload of a line: what follows the marker \<open>data: \<close>, trimmed
  (\<open>line.slice(6).trim()\<close>); a line without the marker has none.
\<close>

definition payload :: "jsstring \<Rightarrow> jsstring option" where
  "payload line =
     (if prefix (js ''data: '') line then Some (trim (drop 6 line)) else None)"

text \<open>
  The body of the loop over the lines: the new \<open>textStarted\<close> and the events
  yielded for one line. A SyntaxError of \<open>JSON.parse\<close> and the TypeError of reading
  \<open>parsed.type\<close> of \<open>null\<close> are caught and the line is skipped.
\<close>

definition transformLine ::
  "json_parse \<Rightarrow> jsstring \<Rightarrow> bool \<Rightarrow> jsstring \<Rightarrow> bool \<times> event list" where
  "transformLine parse textId textStarted line =
     (case payload line of
        None \<Rightarrow> (textStarted, [])
      | Some data \<Rightarrow>
          if data = js ''[DONE]'' then (textStarted, [])
          else
            (case parse data of
               None \<Rightarrow> (textStarted, [])
             | Some parsed \<Rightarrow>
                 if parsed = JNull then (textStarted, [])
                 else if getProp parsed (js ''type'') = Some (JStr (js ''ping''))
                 then (textStarted, [Heartbeat])
                 else
                   (case contentString parsed of
                      Some content \<Rightarrow>
                        if isAgentNode parsed then
                          (True,
                           (if \<not> textStarted then [TextStart textId] else []) @
                           [TextDelta textId content])
                        else (textStarted, [])
                    | None \<Rightarrow>
                        (case getProp parsed (js ''error'') of
                           Some e \<Rightarrow>
                             if truthy e then (textStarted, [ErrorEvent e])
                             else (textStarted, [])
                         | None \<Rightarrow> (textStarted, [])))))"

fun transformLines ::
  "json_parse \<Rightarrow> jsstring \<Rightarrow> bool \<Rightarrow> jsstring list \<Rightarrow> bool \<times> event list" where
  "transformLines parse textId textStarted [] = (textStarted, [])"
| "transformLines parse textId textStarted (line # lines) =
     (let (started1, evs1) = transformLine parse textId textStarted line;
          (started2, evs2) = transformLines parse textId started1 lines
      in (started2, evs1 @ evs2))"

text \<open>The variables of the generator: the decoder, \<open>buffer\<close> and \<open>textStarted\<close>.\<close>

record transform_state =
  decoder :: text_decoder
  buffer :: jsstring
  textStarted :: bool

definition initialState :: transform_state where
  "initialState = \<lparr>decoder = newTextDecoder, buffer = [], textStarted = False\<rparr>"

text \<open>
  The first half of a round of the \<open>while\<close> loop on a chunk \<open>value\<close>: the
  decoded text is appended to the buffer, the buffer is split at the line feeds, the
  last piece (\<open>lines.pop()\<close>, never \<open>undefined\<close>) is the new buffer and the other
  pieces are the lines.
\<close>

definition nextLines ::
  "text_decoder \<Rightarrow> jsstring \<Rightarrow> byte list \<Rightarrow> text_decoder \<times> jsstring \<times> jsstring list" where
  "nextLines d buf v =
     (let (d', text) = decode d v;
          lines = splitLines (buf @ text)
      in (d', last lines, butlast lines))"

definition transformChunk ::
  "json_parse \<Rightarrow> jsstring \<Rightarrow> transform_state \<Rightarrow> byte list \<Rightarrow> transform_state \<times> event list" where
  "transformChunk parse textId s v =
     (let (d, buf, lines) = nextLines (decoder s) (buffer s) v;
          (started, evs) = transformLines parse textId (textStarted s) lines
      in (\<lparr>decoder = d, buffer = buf, textStarted = started\<rparr>, evs))"

text \<open>The payloads the loop sees, round after round, when every read gives a chunk.\<close>

fun decodedPayloads :: "text_decoder \<Rightarrow> jsstring \<Rightarrow> byte list list \<Rightarrow> jsstring list" where
  "decodedPayloads d buf [] = []"
| "decodedPayloads d buf (v # vs) =
     (let (d', buf', lines) = nextLines d buf v
      in List.map_filter payload lines @ decodedPayloads d' buf' vs)"

text \<open>
  What \<open>reader.read()\<close> gives, call after call: a chunk, or a rejection (the
  connection to the backend broke). The end of the list is \<open>done\<close>.
\<close>

datatype read_result = Chunk "byte list" | ReadError

datatype completion = Returned | Thrown

fun transformReads ::
  "json_parse \<Rightarrow> jsstring \<Rightarrow> transform_state \<Rightarrow> read_result list \<Rightarrow> event list \<times> completion" where
  "transformReads parse textId s [] =
     ((if textStarted s then [TextEnd textId] else []), Returned)"
| "transformReads parse textId s (ReadError # rs) = ([], Thrown)"
| "transformReads parse textId s (Chunk v # rs) =
     (let (s1, evs1) = transformChunk parse textId s v;
          (evs2, c) = transformReads parse textId s1 rs
      in (evs1 @ evs2, c))"

text \<open>
  The generator: the events it yields and how it ends. Without a body it throws
  \<open>No response body\<close> before it yields anything.
\<close>

definition transformBackendStream ::
  "json_parse \<Rightarrow> read_result list option \<Rightarrow> jsstring \<Rightarrow> jsstring \<Rightarrow> event list \<times> completion" where
  "transformBackendStream parse body messageId textId =
     (case body of
        None \<Rightarrow> ([], Thrown)
      | Some reads \<Rightarrow> transformReads parse textId initialState reads)"

section \<open>The request, the collaborators and the response (first route)\<close>

text \<open>
  A part of a message: its \<open>type\<close>, and its \<open>text\<close> when that is a string. The
  parts of a message are absent (\<open>None\<close>) or a list.
\<close>

record part =
  ptype :: jsstring
  ptext :: "jsstring option"

record chat_message =
  msgId :: jsstring
  msgRole :: jsstring
  msgParts :: "part list option"

record post_body =
  chatId :: jsstring
  message :: "chat_message option"
  selectedVisibilityType :: jsstring

text \<open>\<open>Array.prototype.join\<close>.\<close>

fun join :: "jsstring \<Rightarrow> jsstring list \<Rightarrow> jsstring" where
  "join sep [] = []"
| "join sep [x] = x"
| "join sep (x # y # ys) = x @ sep @ join sep (y # ys)"

text \<open>The filter of \<open>extractMessageText\<close>: \<open>part.type === "text"\<close> and the text a string.\<close>

definition isTextPart :: "part \<Rightarrow> bool" where
  "isTextPart p \<longleftrightarrow> ptype p = js ''text'' \<and> ptext p \<noteq> None"

definition partText :: "part \<Rightarrow> jsstring" where
  "partText p = (case ptext p of Some t \<Rightarrow> t | None \<Rightarrow> [])"

definition extractMessageText :: "chat_message \<Rightarrow> jsstring" where
  "extractMessageText m =
     (case msgParts m of
        None \<Rightarrow> []
      | Some ps \<Rightarrow> join [0x0A] (map partText (filter isTextPart ps)))"

text \<open>
  What the collaborators answer for one request. Their calls succeed, but for the
  ones the route itself guards: \<open>fetch\<close> and the reads of the backend's body, the save
  of the assistant's message and the title promise inside the stream.
\<close>

record user =
  userId :: jsstring
  userType :: jsstring

record backend_response =
  status :: nat
  body :: "read_result list option"

datatype fetch_result = Rejected | Resolved backend_response

record env =
  requestBody :: "post_body option"
  backendUrl :: bool
  session :: "user option"
  messageCount :: int
  maxMessagesPerDay :: "jsstring \<Rightarrow> int"
  storedChatOwner :: "jsstring option"
  fetched :: fetch_result
  jsonParse :: json_parse
  jsonStringify :: "jsstring \<Rightarrow> jsstring"
  indexKey :: "json option \<Rightarrow> jsstring"
  assistantMessageId :: jsstring
  textId :: jsstring
  saveAssistantThrows :: bool
  generatedTitle :: "jsstring option"

text \<open>
  \<open>requestBody\<close>: the parsed body, \<open>None\<close> where \<open>request.json()\<close> or the schema
  throws. \<open>backendUrl\<close>: \<open>RENDER_BACKEND_URL\<close> is set. \<open>session\<close>: \<open>session?.user\<close>.
  \<open>storedChatOwner\<close>: the \<open>userId\<close> of \<open>getChatById\<close>'s chat. \<open>assistantMessageId\<close>
  and \<open>textId\<close>: the two results of \<open>generateUUID\<close>. \<open>generatedTitle\<close>: what the title
  promise resolves to, \<open>None\<close> where it rejects. \<open>jsonParse\<close> is \<open>JSON.parse\<close>;
  \<open>jsonStringify\<close> is \<open>JSON.stringify\<close> on a string (the quoted text); \<open>indexKey\<close> gives
  the property key of \<open>n - 1\<close> for a value \<open>n\<close> (\<open>None\<close> for \<open>undefined\<close>). The last
  two are read by the second route only.
\<close>

text \<open>The calls the route makes to its collaborators, in the order it makes them.\<close>

datatype effect =
    SaveChat jsstring jsstring jsstring jsstring
  | GenerateTitle chat_message
  | SaveMessage jsstring jsstring jsstring "part list option"
  | Fetch jsstring jsstring
  | UpdateChatTitle jsstring jsstring

datatype backend_error = NotConfigured | FetchFailed | BackendError nat

definition callRenderBackend ::
  "env \<Rightarrow> jsstring \<Rightarrow> jsstring \<Rightarrow> (backend_error + backend_response) \<times> effect list" where
  "callRenderBackend e messageText threadId =
     (if \<not> backendUrl e then (Inl NotConfigured, [])
      else
        (case fetched e of
           Rejected \<Rightarrow> (Inl FetchFailed, [Fetch messageText threadId])
         | Resolved r \<Rightarrow>
             if \<not> (200 \<le> status r \<and> status r \<le> 299)
             then (Inl (BackendError (status r)), [Fetch messageText threadId])
             else (Inr r, [Fetch messageText threadId])))"

subsection \<open>The client's stream\<close>

text \<open>
  What the controller of the response's stream has taken: events, the close, and
  (second route) the \<open>controller.error\<close> that aborts the stream.
  \<open>controller.enqueue\<close> and \<open>controller.close\<close> throw on a closed controller. The
  client stays connected: only the route closes the stream.
\<close>

datatype wire_item = Data event | Close | Abort

record sink =
  isClosed :: bool
  written :: "wire_item list"

definition newSink :: sink where
  "newSink = \<lparr>isClosed = False, written = []\<rparr>"

definition controllerEnqueue :: "wire_item list \<Rightarrow> event \<Rightarrow> wire_item list option" where
  "controllerEnqueue w ev = (if Close \<in> set w then None else Some (w @ [Data ev]))"

definition controllerClose :: "wire_item list \<Rightarrow> wire_item list option" where
  "controllerClose w = (if Close \<in> set w then None else Some (w @ [Close]))"

definition safeEnqueue :: "sink \<Rightarrow> event \<Rightarrow> sink" where
  "safeEnqueue s ev =
     (if \<not> isClosed s then
        (case controllerEnqueue (written s) ev of
           Some w \<Rightarrow> s\<lparr>written := w\<rparr>
         | None \<Rightarrow> s)
      else s)"

definition safeClose :: "sink \<Rightarrow> sink" where
  "safeClose s =
     (if \<not> isClosed s then
        (case controllerClose (written s) of
           Some w \<Rightarrow> s\<lparr>isClosed := True, written := w\<rparr>
         | None \<Rightarrow> s\<lparr>isClosed := True\<rparr>)
      else s)"

definition connectionError :: jsstring where
  "connectionError = js ''Backend connection error. Please try again.''"

text \<open>
  The body of the \<open>for await\<close> loop on a chunk of the generator: the chunk is
  enqueued, and the delta of a \<open>text-delta\<close> is appended to \<open>fullContent\<close> when it is
  not empty. (The route reads the delta back from the frame with \<open>JSON.parse\<close>, which
  returns what \<open>JSON.stringify\<close> was given.)
\<close>

definition forAwait :: "sink \<times> jsstring \<Rightarrow> event \<Rightarrow> sink \<times> jsstring" where
  "forAwait acc ev =
     (case acc of (s, fullContent) \<Rightarrow>
        (safeEnqueue s ev,
         (case ev of
            TextDelta i delta \<Rightarrow> if delta \<noteq> [] then fullContent @ delta else fullContent
          | _ \<Rightarrow> fullContent)))"

text \<open>
  The \<open>start\<close> function of the response's stream, for the chat \<open>chat\<close>, with
  \<open>titlePromise\<close> set or not: the sink at the end and the collaborators called.
\<close>

definition streamStart ::
  "env \<Rightarrow> jsstring \<Rightarrow> bool \<Rightarrow> read_result list option \<Rightarrow> sink \<times> effect list" where
  "streamStart e chat titlePromise backendBody =
     (let s1 = safeEnqueue newSink (Start (assistantMessageId e));
          (evs, c) = transformBackendStream (jsonParse e) backendBody
                       (assistantMessageId e) (textId e);
          (s2, content) = foldl forAwait (s1, []) evs;
          s3 = (if c = Thrown then safeEnqueue s2 (ErrorEvent (JStr connectionError)) else s2);
          fullContent = (if c = Thrown then connectionError else content);
          s4 = safeEnqueue s3 (Finish (js ''stop''));
          s5 = safeEnqueue s4 Done;
          saved = (if fullContent \<noteq> [] then
                     [SaveMessage chat (assistantMessageId e) (js ''assistant'')
                        (Some [\<lparr>ptype = js ''text'', ptext = Some fullContent\<rparr>])]
                   else [])
      in if fullContent \<noteq> [] \<and> saveAssistantThrows e then (safeClose s5, saved)
         else if titlePromise then
           (case generatedTitle e of
              None \<Rightarrow> (safeClose s5, saved)
            | Some title \<Rightarrow> (safeClose s5, saved @ [UpdateChatTitle chat title]))
         else (safeClose s5, saved))"

subsection \<open>POST\<close>

datatype response = ErrorResponse jsstring | StreamResponse "wire_item list"

record post_result =
  response :: response
  effects :: "effect list"

text \<open>
  The route from the save of the user's message on, \<open>before\<close> the calls made so far.
\<close>

definition saveAndStream ::
  "env \<Rightarrow> post_body \<Rightarrow> effect list \<Rightarrow> bool \<Rightarrow> post_result" where
  "saveAndStream e rb before titlePromise =
     (let saved =
            (case message rb of
               None \<Rightarrow> []
             | Some m \<Rightarrow>
                 if msgRole m = js ''user''
                 then [SaveMessage (chatId rb) (msgId m) (js ''user'') (msgParts m)]
                 else []);
          messageText = (case message rb of None \<Rightarrow> [] | Some m \<Rightarrow> extractMessageText m)
      in if messageText = [] then
           \<lparr>response = ErrorResponse (js ''bad_request:api''), effects = before @ saved\<rparr>
         else
           (case callRenderBackend e messageText (chatId rb) of
              (Inl err, called) \<Rightarrow>
                \<lparr>response = ErrorResponse (js ''offline:chat''),
                 effects = before @ saved @ called\<rparr>
            | (Inr r, called) \<Rightarrow>
                (case body r of
                   None \<Rightarrow>
                     \<lparr>response = ErrorResponse (js ''offline:chat''),
                      effects = before @ saved @ called\<rparr>
                 | Some reads \<Rightarrow>
                     (let (s, inStream) = streamStart e (chatId rb) titlePromise (Some reads)
                      in \<lparr>response = StreamResponse (written s),
                          effects = before @ saved @ called @ inStream\<rparr>))))"

definition POST :: "env \<Rightarrow> post_result" where
  "POST e =
     (case requestBody e of
        None \<Rightarrow> \<lparr>response = ErrorResponse (js ''bad_request:api''), effects = []\<rparr>
      | Some rb \<Rightarrow>
          if \<not> backendUrl e then
            \<lparr>response = ErrorResponse (js ''bad_request:api''), effects = []\<rparr>
          else
            (case session e of
               None \<Rightarrow> \<lparr>response = ErrorResponse (js ''unauthorized:chat''), effects = []\<rparr>
             | Some u \<Rightarrow>
                 if messageCount e > maxMessagesPerDay e (userType u) then
                   \<lparr>response = ErrorResponse (js ''rate_limit:chat''), effects = []\<rparr>
                 else
                   (case storedChatOwner e of
                      Some owner \<Rightarrow>
                        if owner \<noteq> userId u then
                          \<lparr>response = ErrorResponse (js ''forbidden:chat''), effects = []\<rparr>
                        else saveAndStream e rb [] False
                    | None \<Rightarrow>
                        (case message rb of
                           Some m \<Rightarrow>
                             if msgRole m = js ''user'' then
                               saveAndStream e rb
                                 [SaveChat (chatId rb) (userId u) (js ''New chat'')
                                    (selectedVisibilityType rb),
                                  GenerateTitle m]
                                 True
                             else saveAndStream e rb [] False
                         | None \<Rightarrow> saveAndStream e rb [] False))))"

text \<open>The events the client is sent, and how often the stream was closed.\<close>

definition clientEvents :: "wire_item list \<Rightarrow> event list" where
  "clientEvents w =
     List.map_filter (\<lambda>x. case x of Data ev \<Rightarrow> Some ev | _ \<Rightarrow> None) w"

definition closeCount :: "wire_item list \<Rightarrow> nat" where
  "closeCount w = count_list w Close"

fun isAssistantSave :: "effect \<Rightarrow> bool" where
  "isAssistantSave (SaveMessage chat i role ps) = (role = js ''assistant'')"
| "isAssistantSave eff = False"

fun isFetch :: "effect \<Rightarrow> bool" where
  "isFetch (Fetch messageText threadId) = True"
| "isFetch eff = False"

section \<open>The second route: whole-content diffing\<close>

text \<open>
  \<open>messages[messages.length - 1]\<close> for a truthy \<open>messages\<close>: the last element of an
  array, the last code unit of a string, the property of an object whose key
  \<open>length - 1\<close> is, and \<open>undefined\<close> for a number or \<open>true\<close>.
\<close>

definition lastMessage :: "(json option \<Rightarrow> jsstring) \<Rightarrow> json \<Rightarrow> json option" where
  "lastMessage key messages =
     (case messages of
        JArr xs \<Rightarrow> if xs = [] then None else Some (last xs)
      | JStr s \<Rightarrow> if s = [] then None else Some (JStr [last s])
      | JObj kvs \<Rightarrow> map_of kvs (key (map_of kvs (js ''length'')))
      | _ \<Rightarrow> None)"

text \<open>
  The content taken from a parsed payload that is not \<open>null\<close>: of the last of
  \<open>parsed.agent.messages\<close>, or \<open>parsed.output\<close>, or the payload itself when it is a
  string; \<open>None\<close> for \<open>null\<close>.
\<close>

definition extractContent :: "(json option \<Rightarrow> jsstring) \<Rightarrow> json \<Rightarrow> json option" where
  "extractContent key parsed =
     (let messages =
            (case getProp parsed (js ''agent'') of
               None \<Rightarrow> None
             | Some agent \<Rightarrow> getProp agent (js ''messages''))
      in case (case messages of None \<Rightarrow> None | Some m \<Rightarrow> if truthy m then Some m else None) of
           Some m \<Rightarrow>
             (case lastMessage key m of
                None \<Rightarrow> None
              | Some lm \<Rightarrow>
                  (case contentString lm of
                     Some content \<Rightarrow> Some (JStr content)
                   | None \<Rightarrow> None))
         | None \<Rightarrow>
             (case (case getProp parsed (js ''output'') of
                      None \<Rightarrow> None
                    | Some out \<Rightarrow> if truthy out then Some out else None) of
                Some out \<Rightarrow> Some out
              | None \<Rightarrow>
                  (case parsed of
                     JStr s \<Rightarrow> Some (JStr s)
                   | _ \<Rightarrow> None)))"

text \<open>
  \<open>Only send new content (delta)\<close>: the new \<open>lastContent\<close> and the delta yielded, if
  any, for a content that is a string.
\<close>

definition emitDelta :: "jsstring \<Rightarrow> jsstring \<Rightarrow> jsstring \<times> jsstring option" where
  "emitDelta lastContent content =
     (if content \<noteq> [] \<and> content \<noteq> lastContent then
        (let delta = (if prefix lastContent content
                      then drop (length lastContent) content
                      else content)
         in if delta \<noteq> [] then (content, Some delta) else (lastContent, None))
      else (lastContent, None))"

text \<open>
  The body of the loop over the lines. A content that is truthy and not a string has
  no \<open>startsWith\<close>: the TypeError is caught with the other errors of the line.
\<close>

definition transformLine2 ::
  "json_parse \<Rightarrow> (json option \<Rightarrow> jsstring) \<Rightarrow> jsstring \<Rightarrow> jsstring \<Rightarrow> jsstring \<times> event list" where
  "transformLine2 parse key lastContent line =
     (case payload line of
        None \<Rightarrow> (lastContent, [])
      | Some data \<Rightarrow>
          if data = js ''[DONE]'' then (lastContent, [Finish (js ''stop'')])
          else
            (case parse data of
               None \<Rightarrow> (lastContent, [])
             | Some parsed \<Rightarrow>
                 if parsed = JNull then (lastContent, [])
                 else
                   (case extractContent key parsed of
                      Some (JStr content) \<Rightarrow>
                        (case emitDelta lastContent content of
                           (lastContent', Some delta) \<Rightarrow> (lastContent', [TextDeltaPlain delta])
                         | (lastContent', None) \<Rightarrow> (lastContent', []))
                    | _ \<Rightarrow> (lastContent, []))))"

fun transformLines2 ::
  "json_parse \<Rightarrow> (json option \<Rightarrow> jsstring) \<Rightarrow> jsstring \<Rightarrow> jsstring list \<Rightarrow> jsstring \<times> event list" where
  "transformLines2 parse key lastContent [] = (lastContent, [])"
| "transformLines2 parse key lastContent (line # lines) =
     (let (last1, evs1) = transformLine2 parse key lastContent line;
          (last2, evs2) = transformLines2 parse key last1 lines
      in (last2, evs1 @ evs2))"

record transform_state2 =
  decoder2 :: text_decoder
  buffer2 :: jsstring
  lastContent :: jsstring

definition initialState2 :: transform_state2 where
  "initialState2 = \<lparr>decoder2 = newTextDecoder, buffer2 = [], lastContent = []\<rparr>"

definition transformChunk2 ::
  "json_parse \<Rightarrow> (json option \<Rightarrow> jsstring) \<Rightarrow> transform_state2 \<Rightarrow> byte list \<Rightarrow>
   transform_state2 \<times> event list" where
  "transformChunk2 parse key s v =
     (let (d, buf, lines) = nextLines (decoder2 s) (buffer2 s) v;
          (last', evs) = transformLines2 parse key (lastContent s) lines
      in (\<lparr>decoder2 = d, buffer2 = buf, lastContent = last'\<rparr>, evs))"

fun transformReads2 ::
  "json_parse \<Rightarrow> (json option \<Rightarrow> jsstring) \<Rightarrow> transform_state2 \<Rightarrow> read_result list \<Rightarrow>
   event list \<times> completion" where
  "transformReads2 parse key s [] = ([], Returned)"
| "transformReads2 parse key s (ReadError # rs) = ([], Thrown)"
| "transformReads2 parse key s (Chunk v # rs) =
     (let (s1, evs1) = transformChunk2 parse key s v;
          (evs2, c) = transformReads2 parse key s1 rs
      in (evs1 @ evs2, c))"

definition transformBackendStream2 ::
  "json_parse \<Rightarrow> (json option \<Rightarrow> jsstring) \<Rightarrow> read_result list option \<Rightarrow>
   event list \<times> completion" where
  "transformBackendStream2 parse key backendBody =
     (case backendBody of
        None \<Rightarrow> ([], Thrown)
      | Some reads \<Rightarrow> transformReads2 parse key initialState2 reads)"

text \<open>
  What the regular expression \<open>"textDelta":"([^"]*)"\<close> captures in the frame of an
  event: the quoted delta after its opening quote, up to the next quote.
\<close>

definition captured :: "(jsstring \<Rightarrow> jsstring) \<Rightarrow> event \<Rightarrow> jsstring" where
  "captured stringify ev =
     (case ev of
        TextDeltaPlain delta \<Rightarrow> takeWhile (\<lambda>c. c \<noteq> 0x22) (drop 1 (stringify delta))
      | _ \<Rightarrow> [])"

text \<open>
  The \<open>start\<close> function of the second route's stream: what the controller has taken
  and the collaborators called. Any error inside ends in \<open>controller.error\<close>.
\<close>

definition streamStart2 ::
  "env \<Rightarrow> jsstring \<Rightarrow> bool \<Rightarrow> read_result list option \<Rightarrow> wire_item list \<times> effect list" where
  "streamStart2 e chat titlePromise backendBody =
     (let (evs, c) = transformBackendStream2 (jsonParse e) (indexKey e) backendBody;
          w = Data (MessageStart (assistantMessageId e)) # map Data evs;
          fullContent = concat (map (captured (jsonStringify e)) evs);
          saved = (if fullContent \<noteq> [] then
                     [SaveMessage chat (assistantMessageId e) (js ''assistant'')
                        (Some [\<lparr>ptype = js ''text'', ptext = Some fullContent\<rparr>])]
                   else [])
      in if c = Thrown then (w @ [Abort], [])
         else if fullContent \<noteq> [] \<and> saveAssistantThrows e then (w @ [Abort], saved)
         else if titlePromise then
           (case generatedTitle e of
              None \<Rightarrow> (w @ [Abort], saved)
            | Some title \<Rightarrow>
                (w @ [Data (ChatTitle title), Close], saved @ [UpdateChatTitle chat title]))
         else (w @ [Close], saved))"

text \<open>
  The second route's backend call has no timeout and its \<open>POST\<close> no check of the
  body; up to the call of the backend the two routes are the same text.
\<close>

definition saveAndStream2 ::
  "env \<Rightarrow> post_body \<Rightarrow> effect list \<Rightarrow> bool \<Rightarrow> post_result" where
  "saveAndStream2 e rb before titlePromise =
     (let saved =
            (case message rb of
               None \<Rightarrow> []
             | Some m \<Rightarrow>
                 if msgRole m = js ''user''
                 then [SaveMessage (chatId rb) (msgId m) (js ''user'') (msgParts m)]
                 else []);
          messageText = (case message rb of None \<Rightarrow> [] | Some m \<Rightarrow> extractMessageText m)
      in if messageText = [] then
           \<lparr>response = ErrorResponse (js ''bad_request:api''), effects = before @ saved\<rparr>
         else
           (case callRenderBackend e messageText (chatId rb) of
              (Inl err, called) \<Rightarrow>
                \<lparr>response = ErrorResponse (js ''offline:chat''),
                 effects = before @ saved @ called\<rparr>
            | (Inr r, called) \<Rightarrow>
                (let (w, inStream) = streamStart2 e (chatId rb) titlePromise (body r)
                 in \<lparr>response = StreamResponse w,
                     effects = before @ saved @ called @ inStream\<rparr>)))"

definition POST2 :: "env \<Rightarrow> post_result" where
  "POST2 e =
     (case requestBody e of
        None \<Rightarrow> \<lparr>response = ErrorResponse (js ''bad_request:api''), effects = []\<rparr>
      | Some rb \<Rightarrow>
          if \<not> backendUrl e then
            \<lparr>response = ErrorResponse (js ''bad_request:api''), effects = []\<rparr>
          else
            (case session e of
               None \<Rightarrow> \<lparr>response = ErrorResponse (js ''unauthorized:chat''), effects = []\<rparr>
             | Some u \<Rightarrow>
                 if messageCount e > maxMessagesPerDay e (userType u) then
                   \<lparr>response = ErrorResponse (js ''rate_limit:chat''), effects = []\<rparr>
                 else
                   (case storedChatOwner e of
                      Some owner \<Rightarrow>
                        if owner \<noteq> userId u then
                          \<lparr>response = ErrorResponse (js ''forbidden:chat''), effects = []\<rparr>
                        else saveAndStream2 e rb [] False
                    | None \<Rightarrow>
                        (case message rb of
                           Some m \<Rightarrow>
                             if msgRole m = js ''user'' then
                               saveAndStream2 e rb
                                 [SaveChat (chatId rb) (userId u) (js ''New chat'')
                                    (selectedVisibilityType rb),
                                  GenerateTitle m]
                                 True
                             else saveAndStream2 e rb [] False
                         | None \<Rightarrow> saveAndStream2 e rb [] False))))"

section \<open>Notions the properties are stated with\<close>

text \<open>What a delta adds to \<open>fullContent\<close> in the first route.\<close>

fun deltaOf :: "event \<Rightarrow> jsstring" where
  "deltaOf (TextDelta i delta) = delta"
| "deltaOf ev = []"

text \<open>The chunks that are read before the body ends or a read fails.\<close>

fun chunksRead :: "read_result list \<Rightarrow> byte list list" where
  "chunksRead [] = []"
| "chunksRead (ReadError # rs) = []"
| "chunksRead (Chunk v # rs) = v # chunksRead rs"

text \<open>The complete lines of a body of bytes, as a fresh decoder and an empty buffer give them.\<close>

definition upstreamLines :: "byte list \<Rightarrow> jsstring list" where
  "upstreamLines bytes = (case nextLines newTextDecoder [] bytes of (d, buf, lines) \<Rightarrow> lines)"

text \<open>
  A payload is a node-tagged content frame of the agent or model node, with the
  content \<open>content\<close>: it is not the sentinel, and \<open>JSON.parse\<close> gives an object that is
  no heartbeat, with \<open>node\<close> \<open>agent\<close> or \<open>model\<close> and the string \<open>content\<close>.
\<close>

definition agentFrame :: "json_parse \<Rightarrow> jsstring \<Rightarrow> jsstring \<Rightarrow> bool" where
  "agentFrame parse data content \<longleftrightarrow>
     data \<noteq> js ''[DONE]'' \<and>
     (case parse data of
        None \<Rightarrow> False
      | Some parsed \<Rightarrow>
          getProp parsed (js ''type'') \<noteq> Some (JStr (js ''ping'')) \<and>
          isAgentNode parsed \<and>
          getProp parsed (js ''content'') = Some (JStr content))"

text \<open>
  The text a step of the second route adds to what the client has: the delta it
  yields, and the empty text when it yields none.
\<close>

fun deltaText :: "jsstring option \<Rightarrow> jsstring" where
  "deltaText None = []"
| "deltaText (Some delta) = delta"

text \<open>
  A line of the second route that carries the full content \<open>content\<close>: its payload
  is not the sentinel, and \<open>JSON.parse\<close> gives a value, not \<open>null\<close>, from which the
  route takes the string \<open>content\<close>.
\<close>

definition contentLine ::
  "json_parse \<Rightarrow> (json option \<Rightarrow> jsstring) \<Rightarrow> jsstring \<Rightarrow> jsstring \<Rightarrow> bool" where
  "contentLine parse key line content \<longleftrightarrow>
     (case payload line of
        None \<Rightarrow> False
      | Some data \<Rightarrow>
          data \<noteq> js ''[DONE]'' \<and>
          (case parse data of
             None \<Rightarrow> False
           | Some parsed \<Rightarrow>
               parsed \<noteq> JNull \<and> extractContent key parsed = Some (JStr content)))"

text \<open>
  The deltas of a sequence of full contents, in the specification's words: against
  the last emitted content, the delta of a content that extends it is the suffix and
  the delta of any other content is the whole content; an empty delta emits nothing;
  the last emitted content becomes the new content on every delta that is not empty.
  The result is the last emitted content at the end and the deltas emitted.
\<close>

fun specDeltas :: "jsstring \<Rightarrow> jsstring list \<Rightarrow> jsstring \<times> jsstring list" where
  "specDeltas lastEmitted [] = (lastEmitted, [])"
| "specDeltas lastEmitted (content # contents) =
     (let delta = (if prefix lastEmitted content
                   then drop (length lastEmitted) content
                   else content)
      in if delta = [] then specDeltas lastEmitted contents
         else (case specDeltas content contents of
                 (final, deltas) \<Rightarrow> (final, delta # deltas)))"

text \<open>
  The ordering invariant of the events sent to a client: a \<open>TextStart\<close> precedes any
  \<open>TextDelta\<close> of its id; a \<open>TextEnd\<close> comes once, and no \<open>TextDelta\<close> of its id follows it;
  \<open>Finish\<close> and \<open>Done\<close> come once each, as the last two events.
\<close>

definition orderingInvariant :: "event list \<Rightarrow> bool" where
  "orderingInvariant evs \<longleftrightarrow>
     (\<forall>pre i delta post. evs = pre @ TextDelta i delta # post \<longrightarrow> TextStart i \<in> set pre) \<and>
     (\<forall>pre i post. evs = pre @ TextEnd i # post \<longrightarrow>
        TextEnd i \<notin> set pre \<and> (\<forall>delta. TextDelta i delta \<notin> set post)) \<and>
     length (filter isFinish evs) = 1 \<and>
     count_list evs Done = 1 \<and>
     (\<exists>front reason. evs = front @ [Finish reason, Done])"

subsection \<open>A request and a backend to run the route on\<close>

text \<open>
  The bytes of an ASCII text; \<open>JSON.parse\<close>, \<open>JSON.stringify\<close> and the key of
  \<open>undefined - 1\<close> at the payloads and strings of the examples.
\<close>

definition ascii :: "string \<Rightarrow> byte list" where
  "ascii s = map of_char s"

definition exampleParse :: json_parse where
  \<open>exampleParse =
     map_of
       [(js ''{"node":"model","content":"4"}'',
           JObj [(js ''node'', JStr (js ''model'')), (js ''content'', JStr (js ''4''))]),
        (js ''{"node":"tools","content":"rows"}'',
           JObj [(js ''node'', JStr (js ''tools'')), (js ''content'', JStr (js ''rows''))]),
        (js ''{"node":"agent","content":""}'',
           JObj [(js ''node'', JStr (js ''agent'')), (js ''content'', JStr [])]),
        (js ''{"output":"Hi"}'',
           JObj [(js ''output'', JStr (js ''Hi''))]),
        (js ''{"output":"Hi there"}'',
           JObj [(js ''output'', JStr (js ''Hi there''))]),
        (js ''{"output":"Hi there!"}'',
           JObj [(js ''output'', JStr (js ''Hi there!''))]),
        (js ''{"output":"Bye"}'',
           JObj [(js ''output'', JStr (js ''Bye''))])]\<close>

definition exampleStringify :: "jsstring \<Rightarrow> jsstring" where
  "exampleStringify s = [0x22] @ s @ [0x22]"

definition exampleMessage :: "jsstring \<Rightarrow> chat_message" where
  "exampleMessage text =
     \<lparr>msgId = js ''u1'', msgRole = js ''user'',
      msgParts = Some [\<lparr>ptype = js ''text'', ptext = Some text\<rparr>]\<rparr>"

definition exampleEnv :: "jsstring \<Rightarrow> fetch_result \<Rightarrow> env" where
  "exampleEnv text f =
     \<lparr>requestBody =
        Some \<lparr>chatId = js ''c1'', message = Some (exampleMessage text),
              selectedVisibilityType = js ''private''\<rparr>,
      backendUrl = True,
      session = Some \<lparr>userId = js ''alice'', userType = js ''regular''\<rparr>,
      messageCount = 0,
      maxMessagesPerDay = (\<lambda>t. 100),
      storedChatOwner = None,
      fetched = f,
      jsonParse = exampleParse,
      jsonStringify = exampleStringify,
      indexKey = (\<lambda>n. js ''NaN''),
      assistantMessageId = js ''a1'',
      textId = js ''t1'',
      saveAssistantThrows = False,
      generatedTitle = Some (js ''Sum'')\<rparr>"

subsection \<open>The stream of the first route in closed form\<close>

text \<open>
  What ends the stream after the generator's events, what \<open>fullContent\<close> holds then,
  and the collaborators called after \<open>Done\<close>.
\<close>

definition terminal :: "completion \<Rightarrow> event list" where
  "terminal c =
     (if c = Thrown then [ErrorEvent (JStr connectionError)] else []) @
     [Finish (js ''stop''), Done]"

definition persisted :: "event list \<Rightarrow> completion \<Rightarrow> jsstring" where
  "persisted evs c = (if c = Thrown then connectionError else concat (map deltaOf evs))"

definition inStreamEffects :: "env \<Rightarrow> jsstring \<Rightarrow> bool \<Rightarrow> jsstring \<Rightarrow> effect list" where
  "inStreamEffects e chat titlePromise fullContent =
     (if fullContent \<noteq> [] then
        [SaveMessage chat (assistantMessageId e) (js ''assistant'')
           (Some [\<lparr>ptype = js ''text'', ptext = Some fullContent\<rparr>])]
      else []) @
     (if (fullContent \<noteq> [] \<and> saveAssistantThrows e) \<or> \<not> titlePromise then []
      else (case generatedTitle e of None \<Rightarrow> [] | Some title \<Rightarrow> [UpdateChatTitle chat title]))"

text \<open>
  The events of the lines, read from a span that is open or not: every \<open>TextStart\<close>
  and \<open>TextDelta\<close> has the id \<open>t\<close>, a \<open>TextStart\<close> comes only while the span is not
  open and opens it, a \<open>TextDelta\<close> comes only while it is open, and beside these there
  are only error events and heartbeats.
\<close>

fun spanOk :: "jsstring \<Rightarrow> bool \<Rightarrow> event list \<Rightarrow> bool" where
  "spanOk t started [] = True"
| "spanOk t started (TextStart i # evs) = (i = t \<and> \<not> started \<and> spanOk t True evs)"
| "spanOk t started (TextDelta i delta # evs) = (i = t \<and> started \<and> spanOk t started evs)"
| "spanOk t started (ErrorEvent x # evs) = spanOk t started evs"
| "spanOk t started (Heartbeat # evs) = spanOk t started evs"
| "spanOk t started (ev # evs) = False"

section \<open>Lines and chunks\<close>

lemma splitLines_not_Nil: "splitLines s \<noteq> []"
  by (induction s) (auto split: list.splits)

lemma splitLines_append:
  "splitLines (a @ b) = butlast (splitLines a) @ splitLines (last (splitLines a) @ b)"
proof (induction a)
  case Nil
  show ?case by simp
next
  case (Cons c a)
  obtain l ls where sp: "splitLines a = l # ls"
    using splitLines_not_Nil [of a] by (cases "splitLines a") auto
  obtain l2 ls2 where sp2: "splitLines (last (splitLines a) @ b) = l2 # ls2"
    using splitLines_not_Nil [of "last (splitLines a) @ b"]
    by (cases "splitLines (last (splitLines a) @ b)") auto
  show ?case
    using Cons sp sp2 by (cases ls) (auto split: list.splits)
qed

lemma butlast_splitLines_append:
  "butlast (splitLines (a @ b)) =
     butlast (splitLines a) @ butlast (splitLines (last (splitLines a) @ b))"
  by (subst splitLines_append) (simp add: butlast_append splitLines_not_Nil)

lemma last_splitLines_append:
  "last (splitLines (a @ b)) = last (splitLines (last (splitLines a) @ b))"
  by (subst splitLines_append) (simp add: splitLines_not_Nil)

lemma last_splitLines_no_lf: "0x0A \<notin> set (last (splitLines s))"
  by (induction s) (auto split: list.splits)

lemma splitLines_no_lf: "0x0A \<notin> set s \<Longrightarrow> splitLines s = [s]"
  by (induction s) auto

lemma decodeBytes_append:
  "decodeBytes d (a @ b) =
     (let (d1, o1) = decodeBytes d a;
          (d2, o2) = decodeBytes d1 b
      in (d2, o1 @ o2))"
  by (induction a arbitrary: d) (auto split: prod.splits)

lemma serialize_append:
  "serialize seen (a @ b) =
     (let (s1, o1) = serialize seen a;
          (s2, o2) = serialize s1 b
      in (s2, o1 @ o2))"
  by (induction a arbitrary: seen) (auto split: prod.splits)

lemma decode_append:
  "decode d (a @ b) =
     (let (d1, s1) = decode d a;
          (d2, s2) = decode d1 b
      in (d2, s1 @ s2))"
  by (simp add: decode_def decodeBytes_append serialize_append split: prod.splits)

lemma decode_Nil: "decode d [] = (d, [])"
  by (simp add: decode_def)

lemma nextLines_append:
  "nextLines d buf (a @ b) =
     (let (d1, buf1, l1) = nextLines d buf a;
          (d2, buf2, l2) = nextLines d1 buf1 b
      in (d2, buf2, l1 @ l2))"
proof -
  obtain d1 t1 where a: "decode d a = (d1, t1)" by (cases "decode d a")
  obtain d2 t2 where b: "decode d1 b = (d2, t2)" by (cases "decode d1 b")
  have ab: "decode d (a @ b) = (d2, t1 @ t2)"
    using a b by (simp add: decode_append)
  have bl: "butlast (splitLines (buf @ t1 @ t2)) =
      butlast (splitLines (buf @ t1)) @ butlast (splitLines (last (splitLines (buf @ t1)) @ t2))"
    using butlast_splitLines_append [of "buf @ t1" t2] by simp
  have la: "last (splitLines (buf @ t1 @ t2)) =
      last (splitLines (last (splitLines (buf @ t1)) @ t2))"
    using last_splitLines_append [of "buf @ t1" t2] by simp
  show ?thesis
    by (simp add: nextLines_def Let_def a b ab bl la)
qed

lemma nextLines_Nil: "0x0A \<notin> set buf \<Longrightarrow> nextLines d buf [] = (d, buf, [])"
  by (simp add: nextLines_def decode_Nil splitLines_no_lf)

lemma nextLines_no_lf: "nextLines d buf v = (d', buf', lines) \<Longrightarrow> 0x0A \<notin> set buf'"
  using last_splitLines_no_lf
  by (auto simp: nextLines_def Let_def split: prod.splits)

lemma map_filter_app: "List.map_filter f (xs @ ys) = List.map_filter f xs @ List.map_filter f ys"
  by (simp add: List.map_filter_def)

lemma decodedPayloads_concat:
  "0x0A \<notin> set buf \<Longrightarrow>
   decodedPayloads d buf vs =
     (case nextLines d buf (concat vs) of (d', buf', lines) \<Rightarrow> List.map_filter payload lines)"
proof (induction vs arbitrary: d buf)
  case Nil
  then show ?case by (simp add: nextLines_Nil)
next
  case (Cons v vs)
  obtain d1 buf1 l1 where n1: "nextLines d buf v = (d1, buf1, l1)"
    by (cases "nextLines d buf v")
  have "0x0A \<notin> set buf1" using n1 by (rule nextLines_no_lf)
  then show ?case
    using Cons.IH [of buf1 d1] n1
    by (simp add: nextLines_append map_filter_app split: prod.splits)
qed

lemma transformLines_append:
  "transformLines p t st (xs @ ys) =
     (let (st1, e1) = transformLines p t st xs;
          (st2, e2) = transformLines p t st1 ys
      in (st2, e1 @ e2))"
  by (induction xs arbitrary: st) (auto split: prod.splits)

lemma transformChunk_append:
  "transformChunk p t s (a @ b) =
     (let (s1, e1) = transformChunk p t s a;
          (s2, e2) = transformChunk p t s1 b
      in (s2, e1 @ e2))"
  by (simp add: transformChunk_def nextLines_append transformLines_append split: prod.splits)

lemma transformChunk_Nil: "0x0A \<notin> set (buffer s) \<Longrightarrow> transformChunk p t s [] = (s, [])"
  by (simp add: transformChunk_def nextLines_Nil)

lemma transformChunk_no_lf:
  "transformChunk p t s v = (s', evs) \<Longrightarrow> 0x0A \<notin> set (buffer s')"
  using nextLines_no_lf [of "decoder s" "buffer s" v]
  by (auto simp: transformChunk_def split: prod.splits)

text \<open>
  The generator on any reads: the events of the chunks read, as if they had come in
  one chunk, and a \<open>TextEnd\<close> only when no read failed.
\<close>

lemma transformReads_eq:
  "0x0A \<notin> set (buffer s) \<Longrightarrow>
   transformReads p t s reads =
     (case transformChunk p t s (concat (chunksRead reads)) of
        (s', evs) \<Rightarrow>
          if ReadError \<in> set reads then (evs, Thrown)
          else (evs @ (if textStarted s' then [TextEnd t] else []), Returned))"
proof (induction p t s reads rule: transformReads.induct)
  case (1 parse textId s)
  then show ?case by (simp add: transformChunk_Nil)
next
  case (2 parse textId s rs)
  then show ?case by (simp add: transformChunk_Nil)
next
  case (3 parse textId s v rs)
  obtain s1 e1 where c1: "transformChunk parse textId s v = (s1, e1)"
    by (cases "transformChunk parse textId s v")
  have nolf: "0x0A \<notin> set (buffer s1)" using c1 by (rule transformChunk_no_lf)
  show ?case
    using "3.IH" [OF c1 [symmetric] refl nolf] c1
    by (simp add: transformChunk_append split: prod.splits)
qed

lemma transformBackendStream_eq:
  "transformBackendStream p (Some reads) m t =
     (case transformLines p t False (upstreamLines (concat (chunksRead reads))) of
        (started, evs) \<Rightarrow>
          if ReadError \<in> set reads then (evs, Thrown)
          else (evs @ (if started then [TextEnd t] else []), Returned))"
proof -
  obtain d buf lines where n: "nextLines newTextDecoder [] (concat (chunksRead reads)) = (d, buf, lines)"
    by (cases "nextLines newTextDecoder [] (concat (chunksRead reads))")
  obtain started evs where l: "transformLines p t False lines = (started, evs)"
    by (cases "transformLines p t False lines")
  have c: "transformChunk p t initialState (concat (chunksRead reads)) =
      (\<lparr>decoder = d, buffer = buf, textStarted = started\<rparr>, evs)"
    by (simp add: transformChunk_def initialState_def n l)
  have "0x0A \<notin> set (buffer initialState)" by (simp add: initialState_def)
  then show ?thesis
    by (simp add: transformBackendStream_def transformReads_eq c upstreamLines_def n l)
qed

lemma chunksRead_map_Chunk: "chunksRead (map Chunk vs) = vs"
  by (induction vs) auto

section \<open>The sink and the stream\<close>

lemma transformBackendStream_chunks:
  "transformBackendStream p (Some (map Chunk vs)) m t =
     (case transformLines p t False (upstreamLines (concat vs)) of
        (started, evs) \<Rightarrow> (evs @ (if started then [TextEnd t] else []), Returned))"
  by (simp add: transformBackendStream_eq chunksRead_map_Chunk image_iff)

lemma safeEnqueue_open:
  "Close \<notin> set w \<Longrightarrow>
   safeEnqueue \<lparr>isClosed = False, written = w\<rparr> ev = \<lparr>isClosed = False, written = w @ [Data ev]\<rparr>"
  by (simp add: safeEnqueue_def controllerEnqueue_def)

lemma forAwait_fold:
  "Close \<notin> set w \<Longrightarrow>
   foldl forAwait (\<lparr>isClosed = False, written = w\<rparr>, f) evs =
     (\<lparr>isClosed = False, written = w @ map Data evs\<rparr>, f @ concat (map deltaOf evs))"
proof (induction evs arbitrary: w f)
  case Nil
  show ?case by simp
next
  case (Cons ev evs)
  have step: "forAwait (\<lparr>isClosed = False, written = w\<rparr>, f) ev =
      (\<lparr>isClosed = False, written = w @ [Data ev]\<rparr>, f @ deltaOf ev)"
    using Cons.prems by (cases ev) (simp_all add: forAwait_def safeEnqueue_open)
  have "Close \<notin> set (w @ [Data ev])" using Cons.prems by simp
  from Cons.IH [OF this] show ?case by (simp add: step)
qed

lemma streamStart_closed:
  assumes T: "transformBackendStream (jsonParse e) b (assistantMessageId e) (textId e) = (evs, c)"
  shows "streamStart e chat tp b =
     (\<lparr>isClosed = True,
       written = map Data (Start (assistantMessageId e) # evs @ terminal c) @ [Close]\<rparr>,
      inStreamEffects e chat tp (persisted evs c))"
proof -
  let ?s1 = "\<lparr>isClosed = False, written = [Data (Start (assistantMessageId e))]\<rparr>"
  have s1: "safeEnqueue newSink (Start (assistantMessageId e)) = ?s1"
    by (simp add: newSink_def safeEnqueue_def controllerEnqueue_def)
  have fold: "foldl forAwait (?s1, []) evs =
      (\<lparr>isClosed = False, written = map Data (Start (assistantMessageId e) # evs)\<rparr>,
       concat (map deltaOf evs))"
    using forAwait_fold [of "[Data (Start (assistantMessageId e))]" "[]" evs] by simp
  show ?thesis
    unfolding streamStart_def T s1
    by (cases c)
       (auto simp add: fold Let_def inStreamEffects_def persisted_def terminal_def
          safeEnqueue_def controllerEnqueue_def safeClose_def controllerClose_def image_iff
          split: option.splits)
qed


lemma streamStart_fetched: "streamStart (e\<lparr>fetched := f\<rparr>) c tp b = streamStart e c tp b"
proof -
  obtain evs k where T: "transformBackendStream (jsonParse e) b (assistantMessageId e) (textId e) = (evs, k)"
    by (cases "transformBackendStream (jsonParse e) b (assistantMessageId e) (textId e)")
  have T': "transformBackendStream (jsonParse (e\<lparr>fetched := f\<rparr>)) b
      (assistantMessageId (e\<lparr>fetched := f\<rparr>)) (textId (e\<lparr>fetched := f\<rparr>)) = (evs, k)"
    using T by simp
  show ?thesis
    by (simp add: streamStart_closed [OF T] streamStart_closed [OF T'] inStreamEffects_def)
qed

lemma streamStart_chunks_cong:
  assumes "concat vs = concat ws"
  shows "streamStart e c tp (Some (map Chunk vs)) = streamStart e c tp (Some (map Chunk ws))"
proof -
  obtain evs k where T: "transformBackendStream (jsonParse e) (Some (map Chunk vs)) (assistantMessageId e) (textId e) = (evs, k)"
    by (cases "transformBackendStream (jsonParse e) (Some (map Chunk vs)) (assistantMessageId e) (textId e)")
  have T': "transformBackendStream (jsonParse e) (Some (map Chunk ws)) (assistantMessageId e) (textId e) = (evs, k)"
    using T assms by (simp add: transformBackendStream_chunks)
  show ?thesis
    by (simp add: streamStart_closed [OF T] streamStart_closed [OF T'])
qed

lemma callRenderBackend_resolved:
  "callRenderBackend (e\<lparr>fetched := Resolved r\<rparr>) text thread =
     (if \<not> backendUrl e then (Inl NotConfigured, [])
      else if \<not> (200 \<le> status r \<and> status r \<le> 299)
      then (Inl (BackendError (status r)), [Fetch text thread])
      else (Inr r, [Fetch text thread]))"
  by (simp add: callRenderBackend_def)

section \<open>Chunk boundaries\<close>

text \<open>
  C7. However the bytes of the backend's body are cut into chunks (between any two
  bytes, so also inside a multi-byte character or inside a line), the loop sees the
  same payloads, the generator yields the same events and ends the same way, and the
  route answers the same: two lists of chunks with the same concatenation, for
  instance any cut and the whole body in one chunk, cannot be told apart.
\<close>

theorem chunking_invariant:
  assumes "concat vs = concat ws"
  shows "decodedPayloads newTextDecoder [] vs = decodedPayloads newTextDecoder [] ws \<and>
         transformBackendStream parse (Some (map Chunk vs)) m t =
           transformBackendStream parse (Some (map Chunk ws)) m t \<and>
         POST (e\<lparr>fetched := Resolved \<lparr>status = n, body = Some (map Chunk vs)\<rparr>\<rparr>) =
           POST (e\<lparr>fetched := Resolved \<lparr>status = n, body = Some (map Chunk ws)\<rparr>\<rparr>)"
proof (intro conjI)
  show "decodedPayloads newTextDecoder [] vs = decodedPayloads newTextDecoder [] ws"
    using assms by (simp add: decodedPayloads_concat)
  show "transformBackendStream parse (Some (map Chunk vs)) m t =
          transformBackendStream parse (Some (map Chunk ws)) m t"
    using assms by (simp add: transformBackendStream_chunks)
  let ?e1 = "e\<lparr>fetched := Resolved \<lparr>status = n, body = Some (map Chunk vs)\<rparr>\<rparr>"
  let ?e2 = "e\<lparr>fetched := Resolved \<lparr>status = n, body = Some (map Chunk ws)\<rparr>\<rparr>"
  have ss: "streamStart ?e1 c tp (Some (map Chunk vs)) = streamStart ?e2 c tp (Some (map Chunk ws))"
    for c tp
    using streamStart_chunks_cong [OF assms] by (simp add: streamStart_fetched)
  have sas: "saveAndStream ?e1 rb before tp = saveAndStream ?e2 rb before tp" for rb before tp
    by (simp add: saveAndStream_def callRenderBackend_resolved Let_def ss)
  show "POST ?e1 = POST ?e2"
    by (simp add: POST_def sas split: option.splits)
qed

theorem chunking_invariant_witness:
  \<open>concat [ascii ''data: '' @ [0xC3], [0xA9, 0x0A]] = concat [ascii ''data: '' @ [0xC3, 0xA9, 0x0A]] \<and>
   decodedPayloads newTextDecoder [] [ascii ''data: '' @ [0xC3], [0xA9, 0x0A]] =
     decodedPayloads newTextDecoder [] [ascii ''data: '' @ [0xC3, 0xA9, 0x0A]] \<and>
   decodedPayloads newTextDecoder [] [ascii ''data: '' @ [0xC3, 0xA9, 0x0A]] = [[0xE9]]\<close>
  using chunking_invariant [of "[ascii ''data: '' @ [0xC3], [0xA9, 0x0A]]" "[ascii ''data: '' @ [0xC3, 0xA9, 0x0A]]"]
  by (simp add: nextLines_def decode_def newTextDecoder_def utf8Handler_def utf8Lead_def utf16_def
        ascii_def payload_def js_def trim_def isWhiteSpace_def)

section \<open>Frames of the tools node\<close>

lemma js_tools_neq: "js ''tools'' \<noteq> js ''agent''" "js ''tools'' \<noteq> js ''model''"
  by (simp_all add: js_def)

lemma tools_not_agent:
  "getProp parsed (js ''node'') = Some (JStr (js ''tools'')) \<Longrightarrow> \<not> isAgentNode parsed"
  by (simp add: isAgentNode_def js_tools_neq)

lemma transformLine_tools:
  assumes "payload line = Some data" "parse data = Some parsed"
    and "getProp parsed (js ''node'') = Some (JStr (js ''tools''))"
  shows "fst (transformLine parse tid started line) = started"
    and "\<not> list_ex isTextDelta (snd (transformLine parse tid started line))"
  using assms tools_not_agent [OF assms(3)]
  by (auto simp: transformLine_def split: option.splits)

text \<open>
  C8. A line whose payload parses to a frame with the node \<open>tools\<close> yields no
  \<open>TextDelta\<close>, whatever its content and whatever the state of the span; it leaves
  \<open>textStarted\<close> as it was, and among any lines before and after it the deltas of the
  stream are those of the stream without it.
\<close>

theorem tools_frame_no_text:
  assumes "payload line = Some data" and "parse data = Some parsed"
    and "getProp parsed (js ''node'') = Some (JStr (js ''tools''))"
  shows "fst (transformLine parse tid started line) = started \<and>
         \<not> list_ex isTextDelta (snd (transformLine parse tid started line)) \<and>
         filter isTextDelta (snd (transformLines parse tid started (before @ line # after))) =
           filter isTextDelta (snd (transformLines parse tid started (before @ after)))"
proof (intro conjI)
  show "fst (transformLine parse tid started line) = started"
    using assms by (rule transformLine_tools)
  show "\<not> list_ex isTextDelta (snd (transformLine parse tid started line))"
    using assms by (rule transformLine_tools)
  obtain s1 e1 where b: "transformLines parse tid started before = (s1, e1)"
    by (cases "transformLines parse tid started before")
  obtain s2 e2 where l: "transformLine parse tid s1 line = (s2, e2)"
    by (cases "transformLine parse tid s1 line")
  obtain s3 e3 where a: "transformLines parse tid s1 after = (s3, e3)"
    by (cases "transformLines parse tid s1 after")
  have s2: "s2 = s1"
    using transformLine_tools(1) [of line data parse parsed tid s1] assms l by simp
  have e2: "filter isTextDelta e2 = []"
    using transformLine_tools(2) [of line data parse parsed tid s1] assms l
    by (simp add: list_ex_iff filter_empty_conv)
  show "filter isTextDelta (snd (transformLines parse tid started (before @ line # after))) =
          filter isTextDelta (snd (transformLines parse tid started (before @ after)))"
    by (simp add: transformLines_append b l a s2 e2)
qed

theorem tools_frame_no_text_witness:
  \<open>payload (js ''data: {"node":"tools","content":"rows"}'') = Some (js ''{"node":"tools","content":"rows"}'') \<and>
   exampleParse (js ''{"node":"tools","content":"rows"}'') =
     Some (JObj [(js ''node'', JStr (js ''tools'')), (js ''content'', JStr (js ''rows''))]) \<and>
   getProp (JObj [(js ''node'', JStr (js ''tools'')), (js ''content'', JStr (js ''rows''))]) (js ''node'') =
     Some (JStr (js ''tools'')) \<and>
   transformLine exampleParse (js ''t1'') True (js ''data: {"node":"tools","content":"rows"}'') = (True, []) \<and>
   filter isTextDelta
     (snd (transformLines exampleParse (js ''t1'') False
        [js ''data: {"node":"model","content":"4"}'', js ''data: {"node":"tools","content":"rows"}''])) =
   [TextDelta (js ''t1'') (js ''4'')]\<close>
  using tools_frame_no_text [of \<open>js ''data: {"node":"tools","content":"rows"}''\<close>
      \<open>js ''{"node":"tools","content":"rows"}''\<close> exampleParse
      \<open>JObj [(js ''node'', JStr (js ''tools'')), (js ''content'', JStr (js ''rows''))]\<close>
      \<open>js ''t1''\<close> False \<open>[js ''data: {"node":"model","content":"4"}'']\<close> \<open>[]\<close>]
  by (simp add: transformLine_def payload_def trim_def isWhiteSpace_def js_def exampleParse_def
        contentString_def isAgentNode_def)

section \<open>The answers of the first route\<close>

lemma js_user_neq_assistant: "js ''user'' \<noteq> js ''assistant''"
  by (simp add: js_def)

lemma clientEvents_Data: "clientEvents (map Data evs @ [Close]) = evs"
  by (induction evs) (simp_all add: clientEvents_def)

lemma closeCount_Data: "closeCount (map Data evs @ [Close]) = 1"
  by (induction evs) (simp_all add: closeCount_def)

lemma saveAndStream_stream:
  assumes "response (saveAndStream e rb pre tp) = StreamResponse w"
  shows "\<exists>r reads mid.
           fetched e = Resolved r \<and> body r = Some reads \<and>
           w = written (fst (streamStart e (chatId rb) tp (Some reads))) \<and>
           effects (saveAndStream e rb pre tp) =
             pre @ mid @ snd (streamStart e (chatId rb) tp (Some reads)) \<and>
           \<not> list_ex isAssistantSave mid"
  using assms
  by (auto simp: saveAndStream_def callRenderBackend_def Let_def js_user_neq_assistant
        split: option.splits fetch_result.splits prod.splits if_splits)

lemma saveAndStream_error:
  assumes "response (saveAndStream e rb pre tp) = ErrorResponse code"
  shows "\<exists>mid. effects (saveAndStream e rb pre tp) = pre @ mid \<and>
           \<not> list_ex isAssistantSave mid"
  using assms
  by (auto simp: saveAndStream_def callRenderBackend_def Let_def js_user_neq_assistant
        split: option.splits fetch_result.splits prod.splits if_splits)

lemma POST_saveAndStream:
  "(\<exists>code. POST e = \<lparr>response = ErrorResponse code, effects = []\<rparr>) \<or>
   (\<exists>rb pre tp. requestBody e = Some rb \<and> POST e = saveAndStream e rb pre tp \<and>
      \<not> list_ex isAssistantSave pre \<and> \<not> list_ex isFetch pre)"
  by (auto simp: POST_def split: option.splits)

lemma POST_stream:
  assumes "response (POST e) = StreamResponse w"
  shows "\<exists>rb r reads tp pre.
           requestBody e = Some rb \<and> fetched e = Resolved r \<and> body r = Some reads \<and>
           w = written (fst (streamStart e (chatId rb) tp (Some reads))) \<and>
           effects (POST e) = pre @ snd (streamStart e (chatId rb) tp (Some reads)) \<and>
           \<not> list_ex isAssistantSave pre"
proof -
  from POST_saveAndStream [of e] assms
  obtain rb pre tp where rb: "requestBody e = Some rb"
    and P: "POST e = saveAndStream e rb pre tp" and pre: "\<not> list_ex isAssistantSave pre"
    by auto
  from saveAndStream_stream [of e rb pre tp w] assms P
  obtain r reads mid where "fetched e = Resolved r" "body r = Some reads"
    "w = written (fst (streamStart e (chatId rb) tp (Some reads)))"
    "effects (POST e) = (pre @ mid) @ snd (streamStart e (chatId rb) tp (Some reads))"
    "\<not> list_ex isAssistantSave mid"
    by auto
  with rb pre show ?thesis
    by (intro exI [of _ rb] exI [of _ r] exI [of _ reads] exI [of _ tp] exI [of _ "pre @ mid"]) simp
qed

lemma POST_error:
  assumes "response (POST e) = ErrorResponse code"
  shows "\<not> list_ex isAssistantSave (effects (POST e))"
proof -
  from POST_saveAndStream [of e]
  show ?thesis
  proof (elim disjE exE conjE)
    fix c assume "POST e = \<lparr>response = ErrorResponse c, effects = []\<rparr>"
    then show ?thesis by simp
  next
    fix rb pre tp
    assume P: "POST e = saveAndStream e rb pre tp" and pre: "\<not> list_ex isAssistantSave pre"
    from saveAndStream_error [of e rb pre tp code] assms P pre
    show ?thesis by auto
  qed
qed

text \<open>The stream of a response in closed form.\<close>

lemma POST_stream_closed:
  assumes "response (POST e) = StreamResponse w"
  shows "\<exists>rb r reads tp pre evs c.
           requestBody e = Some rb \<and> fetched e = Resolved r \<and> body r = Some reads \<and>
           transformBackendStream (jsonParse e) (Some reads) (assistantMessageId e) (textId e) = (evs, c) \<and>
           w = map Data (Start (assistantMessageId e) # evs @ terminal c) @ [Close] \<and>
           effects (POST e) = pre @ inStreamEffects e (chatId rb) tp (persisted evs c) \<and>
           \<not> list_ex isAssistantSave pre"
proof -
  from POST_stream [OF assms]
  obtain rb r reads tp pre where
    h: "requestBody e = Some rb" "fetched e = Resolved r" "body r = Some reads"
       "w = written (fst (streamStart e (chatId rb) tp (Some reads)))"
       "effects (POST e) = pre @ snd (streamStart e (chatId rb) tp (Some reads))"
       "\<not> list_ex isAssistantSave pre"
    by blast
  obtain evs c where
    T: "transformBackendStream (jsonParse e) (Some reads) (assistantMessageId e) (textId e) = (evs, c)"
    by (cases "transformBackendStream (jsonParse e) (Some reads) (assistantMessageId e) (textId e)")
  show ?thesis
    using h T by (auto simp add: streamStart_closed [OF T])
qed

lemma transformBackendStream_completion:
  "snd (transformBackendStream p (Some reads) m t) = (if ReadError \<in> set reads then Thrown else Returned)"
  by (simp add: transformBackendStream_eq split: prod.splits)


lemma filter_assistant_inStream:
  "filter isAssistantSave (inStreamEffects e chat tp full) =
     (if full \<noteq> [] then
        [SaveMessage chat (assistantMessageId e) (js ''assistant'')
           (Some [\<lparr>ptype = js ''text'', ptext = Some full\<rparr>])]
      else [])"
  by (simp add: inStreamEffects_def split: option.splits)

lemma deltaOf_terminal: "concat (map deltaOf (terminal c)) = []"
  by (simp add: terminal_def)

lemma deltaOf_nonempty_isTextDelta: "concat (map deltaOf evs) \<noteq> [] \<Longrightarrow> list_ex isTextDelta evs"
proof (induction evs)
  case Nil
  then show ?case by simp
next
  case (Cons ev evs)
  then show ?case by (cases ev) auto
qed

subsection \<open>The route on the example request\<close>

lemma extractMessageText_example: "extractMessageText (exampleMessage text) = text"
  by (simp add: extractMessageText_def exampleMessage_def isTextPart_def partText_def)

lemma exampleEnv_fields:
  "requestBody (exampleEnv text f) =
     Some \<lparr>chatId = js ''c1'', message = Some (exampleMessage text),
           selectedVisibilityType = js ''private''\<rparr>"
  "backendUrl (exampleEnv text f)"
  "session (exampleEnv text f) = Some \<lparr>userId = js ''alice'', userType = js ''regular''\<rparr>"
  "messageCount (exampleEnv text f) = 0"
  "maxMessagesPerDay (exampleEnv text f) t = 100"
  "storedChatOwner (exampleEnv text f) = None"
  "fetched (exampleEnv text f) = f"
  "jsonParse (exampleEnv text f) = exampleParse"
  "jsonStringify (exampleEnv text f) = exampleStringify"
  "indexKey (exampleEnv text f) = (\<lambda>n. js ''NaN'')"
  "assistantMessageId (exampleEnv text f) = js ''a1''"
  "textId (exampleEnv text f) = js ''t1''"
  "\<not> saveAssistantThrows (exampleEnv text f)"
  "generatedTitle (exampleEnv text f) = Some (js ''Sum'')"
  by (simp_all add: exampleEnv_def)

lemma exampleMessage_fields:
  "msgParts (exampleMessage text) = Some [\<lparr>ptype = js ''text'', ptext = Some text\<rparr>]"
  "msgId (exampleMessage text) = js ''u1''"
  "msgRole (exampleMessage text) = js ''user''"
  by (simp_all add: exampleMessage_def)

lemma POST_exampleEnv:
  assumes "text \<noteq> []"
    and "transformBackendStream exampleParse (Some reads) (js ''a1'') (js ''t1'') = (evs, c)"
  shows "POST (exampleEnv text (Resolved \<lparr>status = 200, body = Some reads\<rparr>)) =
     \<lparr>response =
        StreamResponse (map Data (Start (js ''a1'') # evs @ terminal c) @ [Close]),
      effects =
        [SaveChat (js ''c1'') (js ''alice'') (js ''New chat'') (js ''private''),
         GenerateTitle (exampleMessage text),
         SaveMessage (js ''c1'') (js ''u1'') (js ''user'')
           (Some [\<lparr>ptype = js ''text'', ptext = Some text\<rparr>]),
         Fetch text (js ''c1'')] @
        (if persisted evs c \<noteq> [] then
           [SaveMessage (js ''c1'') (js ''a1'') (js ''assistant'')
              (Some [\<lparr>ptype = js ''text'', ptext = Some (persisted evs c)\<rparr>])]
         else []) @
        [UpdateChatTitle (js ''c1'') (js ''Sum'')]\<rparr>"
proof -
  let ?e = "exampleEnv text (Resolved \<lparr>status = 200, body = Some reads\<rparr>)"
  have T: "transformBackendStream (jsonParse ?e) (Some reads) (assistantMessageId ?e) (textId ?e) =
      (evs, c)"
    using assms(2) by (simp add: exampleEnv_fields)
  have I: "inStreamEffects ?e (js ''c1'') True (persisted evs c) =
      (if persisted evs c \<noteq> [] then
           [SaveMessage (js ''c1'') (js ''a1'') (js ''assistant'')
              (Some [\<lparr>ptype = js ''text'', ptext = Some (persisted evs c)\<rparr>])]
         else []) @
        [UpdateChatTitle (js ''c1'') (js ''Sum'')]"
    by (simp add: inStreamEffects_def exampleEnv_fields)
  show ?thesis
    using assms(1)
    by (simp add: POST_def saveAndStream_def callRenderBackend_def Let_def exampleEnv_fields
          exampleMessage_fields extractMessageText_example streamStart_closed [OF T] I)
qed

lemma example_text_ne: "js ''What is 2+2?'' \<noteq> []"
  by (simp add: js_def)

lemma transformBackendStream_example_4:
  \<open>transformBackendStream exampleParse
      (Some [Chunk (ascii ''data: {"node":"model","content":"4"}'' @ [0x0A, 0x0A]),
             Chunk (ascii ''data: [DONE]'' @ [0x0A, 0x0A])]) (js ''a1'') (js ''t1'') =
    ([TextStart (js ''t1''), TextDelta (js ''t1'') (js ''4''), TextEnd (js ''t1'')], Returned)\<close>
  by (simp add: transformBackendStream_def initialState_def newTextDecoder_def transformChunk_def
        nextLines_def decode_def utf8Handler_def utf8Lead_def utf16_def ascii_def
        transformLine_def payload_def trim_def isWhiteSpace_def js_def exampleParse_def
        contentString_def isAgentNode_def)

section \<open>A read that fails in mid-stream\<close>

text \<open>
  C6. When the route has answered with a stream and a read of the backend's body
  fails, the client is sent \<open>Start\<close>, the events yielded before the failure, then the
  error event with the fixed text, then \<open>Finish\<close> with the reason \<open>stop\<close>, then \<open>Done\<close>,
  and after these the stream is closed, once.
\<close>

theorem stream_error_terminal:
  assumes "response (POST e) = StreamResponse w"
    and "fetched e = Resolved r" and "body r = Some reads"
    and "ReadError \<in> set reads"
  shows "w = map Data (Start (assistantMessageId e) #
                fst (transformBackendStream (jsonParse e) (Some reads) (assistantMessageId e) (textId e))) @
             [Data (ErrorEvent (JStr connectionError)), Data (Finish (js ''stop'')), Data Done, Close] \<and>
         closeCount w = 1"
proof -
  from POST_stream_closed [OF assms(1)] assms(2,3)
  obtain evs c where
    T: "transformBackendStream (jsonParse e) (Some reads) (assistantMessageId e) (textId e) = (evs, c)"
    and w: "w = map Data (Start (assistantMessageId e) # evs @ terminal c) @ [Close]"
    by auto
  have c: "c = Thrown"
    using transformBackendStream_completion [of "jsonParse e" reads "assistantMessageId e" "textId e"]
      T assms(4) by simp
  have "closeCount w = 1" unfolding w by (rule closeCount_Data)
  then show ?thesis using w c T by (simp add: terminal_def)
qed

theorem stream_error_terminal_witness:
  \<open>response (POST (exampleEnv (js ''What is 2+2?'')
       (Resolved \<lparr>status = 200,
          body = Some [Chunk (ascii ''data: {"node":"model","content":"4"}'' @ [0x0A, 0x0A]), ReadError]\<rparr>))) =
     StreamResponse
       [Data (Start (js ''a1'')), Data (TextStart (js ''t1'')), Data (TextDelta (js ''t1'') (js ''4'')),
        Data (ErrorEvent (JStr connectionError)), Data (Finish (js ''stop'')), Data Done, Close] \<and>
   ReadError \<in> set [Chunk (ascii ''data: {"node":"model","content":"4"}'' @ [0x0A, 0x0A]), ReadError] \<and>
   closeCount
       [Data (Start (js ''a1'')), Data (TextStart (js ''t1'')), Data (TextDelta (js ''t1'') (js ''4'')),
        Data (ErrorEvent (JStr connectionError)), Data (Finish (js ''stop'')), Data Done, Close] = 1\<close>
proof -
  let ?reads = \<open>[Chunk (ascii ''data: {"node":"model","content":"4"}'' @ [0x0A, 0x0A]), ReadError]\<close>
  let ?e = "exampleEnv (js ''What is 2+2?'') (Resolved \<lparr>status = 200, body = Some ?reads\<rparr>)"
  have T: \<open>transformBackendStream exampleParse (Some ?reads) (js ''a1'') (js ''t1'') =
      ([TextStart (js ''t1''), TextDelta (js ''t1'') (js ''4'')], Thrown)\<close>
    by (simp add: transformBackendStream_def initialState_def newTextDecoder_def transformChunk_def
          nextLines_def decode_def utf8Handler_def utf8Lead_def utf16_def ascii_def
          transformLine_def payload_def trim_def isWhiteSpace_def js_def exampleParse_def
          contentString_def isAgentNode_def)
  have ne: "js ''What is 2+2?'' \<noteq> []" by (simp add: js_def)
  have W: "response (POST ?e) = StreamResponse
       [Data (Start (js ''a1'')), Data (TextStart (js ''t1'')), Data (TextDelta (js ''t1'') (js ''4'')),
        Data (ErrorEvent (JStr connectionError)), Data (Finish (js ''stop'')), Data Done, Close]"
    by (simp add: POST_exampleEnv [OF ne T] terminal_def)
  from stream_error_terminal [OF W, of "\<lparr>status = 200, body = Some ?reads\<rparr>" ?reads]
  show ?thesis using W by (simp add: exampleEnv_def)
qed


section \<open>The save of the assistant's message\<close>

text \<open>
  C3, as amended. The assistant's message is saved at most once per request, and
  only when the route streamed and either a \<open>TextDelta\<close> was sent or a read of the body
  failed; what is saved is the concatenation of the deltas sent, or the fixed error
  text when a read failed, and nothing is saved when that text is empty.
\<close>

theorem assistant_save_once:
  "length (filter isAssistantSave (effects (POST e))) \<le> 1 \<and>
   (list_ex isAssistantSave (effects (POST e)) \<longrightarrow>
      (\<exists>w r reads. response (POST e) = StreamResponse w \<and> fetched e = Resolved r \<and>
         body r = Some reads \<and>
         (list_ex isTextDelta (clientEvents w) \<or> ReadError \<in> set reads))) \<and>
   (\<forall>w rb r reads.
      response (POST e) = StreamResponse w \<and> requestBody e = Some rb \<and>
      fetched e = Resolved r \<and> body r = Some reads \<longrightarrow>
      filter isAssistantSave (effects (POST e)) =
        (let fullContent = (if ReadError \<in> set reads then connectionError
                            else concat (map deltaOf (clientEvents w)))
         in if fullContent = [] then []
            else [SaveMessage (chatId rb) (assistantMessageId e) (js ''assistant'')
                    (Some [\<lparr>ptype = js ''text'', ptext = Some fullContent\<rparr>])]))"
proof (cases "response (POST e)")
  case (ErrorResponse code)
  from POST_error [OF this] have none: "\<not> list_ex isAssistantSave (effects (POST e))" .
  then have "filter isAssistantSave (effects (POST e)) = []"
    by (simp add: list_ex_iff filter_empty_conv)
  with none ErrorResponse show ?thesis by simp
next
  case (StreamResponse w)
  from POST_stream_closed [OF this]
  obtain rb r reads tp pre evs c where
    h: "requestBody e = Some rb" "fetched e = Resolved r" "body r = Some reads"
    and T: "transformBackendStream (jsonParse e) (Some reads) (assistantMessageId e) (textId e) = (evs, c)"
    and w: "w = map Data (Start (assistantMessageId e) # evs @ terminal c) @ [Close]"
    and eff: "effects (POST e) = pre @ inStreamEffects e (chatId rb) tp (persisted evs c)"
    and pre: "\<not> list_ex isAssistantSave pre"
    by blast
  have c: "c = (if ReadError \<in> set reads then Thrown else Returned)"
    using transformBackendStream_completion [of "jsonParse e" reads "assistantMessageId e" "textId e"] T
    by simp
  have ce: "clientEvents w = Start (assistantMessageId e) # evs @ terminal c"
    unfolding w by (rule clientEvents_Data)
  have deltas: "concat (map deltaOf (clientEvents w)) = concat (map deltaOf evs)"
    by (simp add: ce deltaOf_terminal)
  have full: "persisted evs c =
      (if ReadError \<in> set reads then connectionError else concat (map deltaOf (clientEvents w)))"
    by (simp add: persisted_def c deltas)
  have prefilter: "filter isAssistantSave pre = []"
    using pre by (simp add: list_ex_iff filter_empty_conv)
  have F: "filter isAssistantSave (effects (POST e)) =
      (if persisted evs c \<noteq> [] then
         [SaveMessage (chatId rb) (assistantMessageId e) (js ''assistant'')
            (Some [\<lparr>ptype = js ''text'', ptext = Some (persisted evs c)\<rparr>])]
       else [])"
    by (simp add: eff prefilter filter_assistant_inStream)
  have one: "length (filter isAssistantSave (effects (POST e))) \<le> 1"
    by (simp add: F)
  have two: "list_ex isAssistantSave (effects (POST e)) \<longrightarrow>
      (list_ex isTextDelta (clientEvents w) \<or> ReadError \<in> set reads)"
  proof
    assume "list_ex isAssistantSave (effects (POST e))"
    then have "filter isAssistantSave (effects (POST e)) \<noteq> []"
      by (simp add: list_ex_iff filter_empty_conv)
    then have ne: "persisted evs c \<noteq> []" by (simp add: F split: if_splits)
    show "list_ex isTextDelta (clientEvents w) \<or> ReadError \<in> set reads"
    proof (cases "ReadError \<in> set reads")
      case True
      then show ?thesis by simp
    next
      case False
      with ne full have "concat (map deltaOf (clientEvents w)) \<noteq> []" by simp
      then show ?thesis by (simp add: deltaOf_nonempty_isTextDelta)
    qed
  qed
  show ?thesis
    using one two StreamResponse h F full by (auto simp: Let_def)
qed

theorem assistant_save_once_witness:
  \<open>list_ex isAssistantSave
     (effects (POST (exampleEnv (js ''What is 2+2?'')
        (Resolved \<lparr>status = 200,
           body = Some [Chunk (ascii ''data: {"node":"model","content":"4"}'' @ [0x0A, 0x0A]),
                        Chunk (ascii ''data: [DONE]'' @ [0x0A, 0x0A])]\<rparr>)))) \<and>
   response (POST (exampleEnv (js ''What is 2+2?'')
        (Resolved \<lparr>status = 200,
           body = Some [Chunk (ascii ''data: {"node":"model","content":"4"}'' @ [0x0A, 0x0A]),
                        Chunk (ascii ''data: [DONE]'' @ [0x0A, 0x0A])]\<rparr>))) =
     StreamResponse
       [Data (Start (js ''a1'')), Data (TextStart (js ''t1'')), Data (TextDelta (js ''t1'') (js ''4'')),
        Data (TextEnd (js ''t1'')), Data (Finish (js ''stop'')), Data Done, Close] \<and>
   filter isAssistantSave
     (effects (POST (exampleEnv (js ''What is 2+2?'')
        (Resolved \<lparr>status = 200,
           body = Some [Chunk (ascii ''data: {"node":"model","content":"4"}'' @ [0x0A, 0x0A]),
                        Chunk (ascii ''data: [DONE]'' @ [0x0A, 0x0A])]\<rparr>)))) =
     [SaveMessage (js ''c1'') (js ''a1'') (js ''assistant'')
        (Some [\<lparr>ptype = js ''text'', ptext = Some (js ''4'')\<rparr>])]\<close>
proof -
  let ?reads = \<open>[Chunk (ascii ''data: {"node":"model","content":"4"}'' @ [0x0A, 0x0A]),
                 Chunk (ascii ''data: [DONE]'' @ [0x0A, 0x0A])]\<close>
  let ?e = "exampleEnv (js ''What is 2+2?'') (Resolved \<lparr>status = 200, body = Some ?reads\<rparr>)"
  have four: "js ''4'' \<noteq> []" by (simp add: js_def)
  have P: "POST ?e =
     \<lparr>response = StreamResponse
       [Data (Start (js ''a1'')), Data (TextStart (js ''t1'')), Data (TextDelta (js ''t1'') (js ''4'')),
        Data (TextEnd (js ''t1'')), Data (Finish (js ''stop'')), Data Done, Close],
      effects =
        [SaveChat (js ''c1'') (js ''alice'') (js ''New chat'') (js ''private''),
         GenerateTitle (exampleMessage (js ''What is 2+2?'')),
         SaveMessage (js ''c1'') (js ''u1'') (js ''user'')
           (Some [\<lparr>ptype = js ''text'', ptext = Some (js ''What is 2+2?'')\<rparr>]),
         Fetch (js ''What is 2+2?'') (js ''c1''),
         SaveMessage (js ''c1'') (js ''a1'') (js ''assistant'')
           (Some [\<lparr>ptype = js ''text'', ptext = Some (js ''4'')\<rparr>]),
         UpdateChatTitle (js ''c1'') (js ''Sum'')]\<rparr>"
    by (simp add: POST_exampleEnv [OF example_text_ne transformBackendStream_example_4]
          terminal_def persisted_def four)
  from assistant_save_once [of ?e]
  show ?thesis
    by (simp add: P js_user_neq_assistant)
qed

text \<open>
  C3 as stated fails: when the first read fails, no \<open>TextDelta\<close> is sent and the
  assistant's message is still saved, with the error text.
\<close>

theorem assistant_save_without_text:
  \<open>POST (exampleEnv (js ''What is 2+2?'') (Resolved \<lparr>status = 200, body = Some [ReadError]\<rparr>)) =
     \<lparr>response = StreamResponse
        [Data (Start (js ''a1'')), Data (ErrorEvent (JStr connectionError)),
         Data (Finish (js ''stop'')), Data Done, Close],
      effects =
        [SaveChat (js ''c1'') (js ''alice'') (js ''New chat'') (js ''private''),
         GenerateTitle (exampleMessage (js ''What is 2+2?'')),
         SaveMessage (js ''c1'') (js ''u1'') (js ''user'')
           (Some [\<lparr>ptype = js ''text'', ptext = Some (js ''What is 2+2?'')\<rparr>]),
         Fetch (js ''What is 2+2?'') (js ''c1''),
         SaveMessage (js ''c1'') (js ''a1'') (js ''assistant'')
           (Some [\<lparr>ptype = js ''text'', ptext = Some connectionError\<rparr>]),
         UpdateChatTitle (js ''c1'') (js ''Sum'')]\<rparr> \<and>
   \<not> list_ex isTextDelta
        [Start (js ''a1''), ErrorEvent (JStr connectionError), Finish (js ''stop''), Done]\<close>
proof -
  have T: "transformBackendStream exampleParse (Some [ReadError]) (js ''a1'') (js ''t1'') = ([], Thrown)"
    by (simp add: transformBackendStream_def)
  have ce: "connectionError \<noteq> []" by (simp add: connectionError_def js_def)
  show ?thesis
    by (simp add: POST_exampleEnv [OF example_text_ne T] terminal_def persisted_def ce)
qed

section \<open>A backend call that fails\<close>

lemma callRenderBackend_fails:
  "fst (callRenderBackend e text thread) = Inl err \<Longrightarrow>
   fst (callRenderBackend e text' thread') = Inl err"
  by (auto simp: callRenderBackend_def split: fetch_result.splits if_splits)

lemma saveAndStream_backend_fails:
  assumes "fst (callRenderBackend e text thread) = Inl err"
  shows "(\<exists>code. response (saveAndStream e rb pre tp) = ErrorResponse code) \<and>
         (list_ex isFetch (effects (saveAndStream e rb pre tp)) \<and> \<not> list_ex isFetch pre \<longrightarrow>
            response (saveAndStream e rb pre tp) = ErrorResponse (js ''offline:chat''))"
proof -
  let ?text = "case message rb of None \<Rightarrow> [] | Some m \<Rightarrow> extractMessageText m"
  from callRenderBackend_fails [OF assms, of ?text "chatId rb"]
  obtain called where "callRenderBackend e ?text (chatId rb) = (Inl err, called)"
    by (cases "callRenderBackend e ?text (chatId rb)") auto
  then show ?thesis
    by (auto simp: saveAndStream_def Let_def list_ex_iff split: option.splits)
qed

text \<open>
  C2, as amended. When \<open>callRenderBackend\<close> throws, the route answers with an error
  response and no stream, and with the error \<open>offline:chat\<close> whenever the backend was
  called at all. When instead the call succeeds and the first read of the body fails,
  before any byte is read, the client is sent \<open>Start\<close>, the error event, \<open>Finish\<close> with
  the reason \<open>stop\<close> and \<open>Done\<close>, in this order, and the stream is closed once.
\<close>

theorem backend_call_failure:
  "(fst (callRenderBackend e text thread) = Inl err \<longrightarrow>
      (\<exists>code. response (POST e) = ErrorResponse code) \<and>
      (list_ex isFetch (effects (POST e)) \<longrightarrow>
         response (POST e) = ErrorResponse (js ''offline:chat''))) \<and>
   (response (POST e) = StreamResponse w \<and> fetched e = Resolved r \<and>
    body r = Some (ReadError # rest) \<longrightarrow>
      w = [Data (Start (assistantMessageId e)), Data (ErrorEvent (JStr connectionError)),
           Data (Finish (js ''stop'')), Data Done, Close] \<and>
      closeCount w = 1)"
proof (intro conjI impI)
  assume f: "fst (callRenderBackend e text thread) = Inl err"
  from POST_saveAndStream [of e]
  show "\<exists>code. response (POST e) = ErrorResponse code"
    using saveAndStream_backend_fails [OF f] by (elim disjE exE conjE) auto
  assume fe: "list_ex isFetch (effects (POST e))"
  from POST_saveAndStream [of e]
  have "(\<exists>code. POST e = \<lparr>response = ErrorResponse code, effects = []\<rparr>) \<or>
     (\<exists>rb pre tp. POST e = saveAndStream e rb pre tp \<and> \<not> list_ex isFetch pre)"
    by blast
  then show "response (POST e) = ErrorResponse (js ''offline:chat'')"
    using saveAndStream_backend_fails [OF f] fe by (elim disjE exE conjE) auto
next
  assume h: "response (POST e) = StreamResponse w \<and> fetched e = Resolved r \<and>
    body r = Some (ReadError # rest)"
  from POST_stream_closed [of e w] h
  obtain evs c where
    T: "transformBackendStream (jsonParse e) (Some (ReadError # rest)) (assistantMessageId e) (textId e) = (evs, c)"
    and w: "w = map Data (Start (assistantMessageId e) # evs @ terminal c) @ [Close]"
    by auto
  have "evs = [] \<and> c = Thrown" using T by (simp add: transformBackendStream_def)
  then show "w = [Data (Start (assistantMessageId e)), Data (ErrorEvent (JStr connectionError)),
           Data (Finish (js ''stop'')), Data Done, Close]"
    using w by (simp add: terminal_def)
  then show "closeCount w = 1" by (simp add: closeCount_def)
qed

theorem backend_call_failure_witness:
  \<open>fst (callRenderBackend (exampleEnv (js ''What is 2+2?'') Rejected) (js ''What is 2+2?'') (js ''c1'')) =
     Inl FetchFailed \<and>
   list_ex isFetch (effects (POST (exampleEnv (js ''What is 2+2?'') Rejected))) \<and>
   response (POST (exampleEnv (js ''What is 2+2?'') Rejected)) = ErrorResponse (js ''offline:chat'') \<and>
   fetched (exampleEnv (js ''What is 2+2?'') (Resolved \<lparr>status = 200, body = Some [ReadError]\<rparr>)) =
     Resolved \<lparr>status = 200, body = Some [ReadError]\<rparr> \<and>
   response (POST (exampleEnv (js ''What is 2+2?'') (Resolved \<lparr>status = 200, body = Some [ReadError]\<rparr>))) =
     StreamResponse
       [Data (Start (js ''a1'')), Data (ErrorEvent (JStr connectionError)),
        Data (Finish (js ''stop'')), Data Done, Close] \<and>
   closeCount
       [Data (Start (js ''a1'')), Data (ErrorEvent (JStr connectionError)),
        Data (Finish (js ''stop'')), Data Done, Close] = 1\<close>
proof -
  let ?e1 = "exampleEnv (js ''What is 2+2?'') Rejected"
  let ?e2 = "exampleEnv (js ''What is 2+2?'') (Resolved \<lparr>status = 200, body = Some [ReadError]\<rparr>)"
  have c: "callRenderBackend ?e1 (js ''What is 2+2?'') (js ''c1'') =
      (Inl FetchFailed, [Fetch (js ''What is 2+2?'') (js ''c1'')])"
    by (simp add: callRenderBackend_def exampleEnv_fields)
  have P1: "POST ?e1 =
     \<lparr>response = ErrorResponse (js ''offline:chat''),
      effects =
        [SaveChat (js ''c1'') (js ''alice'') (js ''New chat'') (js ''private''),
         GenerateTitle (exampleMessage (js ''What is 2+2?'')),
         SaveMessage (js ''c1'') (js ''u1'') (js ''user'')
           (Some [\<lparr>ptype = js ''text'', ptext = Some (js ''What is 2+2?'')\<rparr>]),
         Fetch (js ''What is 2+2?'') (js ''c1'')]\<rparr>"
    using example_text_ne
    by (simp add: POST_def saveAndStream_def Let_def exampleEnv_fields exampleMessage_fields
          extractMessageText_example c)
  have T: "transformBackendStream exampleParse (Some [ReadError]) (js ''a1'') (js ''t1'') = ([], Thrown)"
    by (simp add: transformBackendStream_def)
  have P2: "response (POST ?e2) = StreamResponse
       [Data (Start (js ''a1'')), Data (ErrorEvent (JStr connectionError)),
        Data (Finish (js ''stop'')), Data Done, Close]"
    by (simp add: POST_exampleEnv [OF example_text_ne T] terminal_def)
  from backend_call_failure [of ?e1 "js ''What is 2+2?''" "js ''c1''" FetchFailed]
    backend_call_failure [of ?e2 _ _ _ _ "\<lparr>status = 200, body = Some [ReadError]\<rparr>" "[]"]
  show ?thesis
    by (simp add: c P1 P2 exampleEnv_fields)
qed

text \<open>
  C2 as stated fails: with a \<open>fetch\<close> that rejects, \<open>callRenderBackend\<close> throws and the
  client receives the error response \<open>offline:chat\<close>, not a stream of events.
\<close>

theorem backend_call_throws_no_stream:
  \<open>fst (callRenderBackend (exampleEnv (js ''What is 2+2?'') Rejected) (js ''What is 2+2?'') (js ''c1'')) =
     Inl FetchFailed \<and>
   POST (exampleEnv (js ''What is 2+2?'') Rejected) =
     \<lparr>response = ErrorResponse (js ''offline:chat''),
      effects =
        [SaveChat (js ''c1'') (js ''alice'') (js ''New chat'') (js ''private''),
         GenerateTitle (exampleMessage (js ''What is 2+2?'')),
         SaveMessage (js ''c1'') (js ''u1'') (js ''user'')
           (Some [\<lparr>ptype = js ''text'', ptext = Some (js ''What is 2+2?'')\<rparr>]),
         Fetch (js ''What is 2+2?'') (js ''c1'')]\<rparr>\<close>
proof -
  let ?e1 = "exampleEnv (js ''What is 2+2?'') Rejected"
  have c: "callRenderBackend ?e1 (js ''What is 2+2?'') (js ''c1'') =
      (Inl FetchFailed, [Fetch (js ''What is 2+2?'') (js ''c1'')])"
    by (simp add: callRenderBackend_def exampleEnv_fields)
  show ?thesis
    using example_text_ne
    by (simp add: POST_def saveAndStream_def Let_def exampleEnv_fields exampleMessage_fields
          extractMessageText_example c)
qed


section \<open>The text of the message and its validation\<close>

lemma join_append:
  "join sep (xs @ ys) =
     (if xs = [] then join sep ys
      else if ys = [] then join sep xs
      else join sep xs @ sep @ join sep ys)"
proof (induction sep xs rule: join.induct)
  case (1 sep)
  show ?case by simp
next
  case (2 sep x)
  show ?case by (cases ys) simp_all
next
  case (3 sep x y zs)
  then show ?case by simp
qed

lemma saveAndStream_empty_text:
  assumes "message rb = Some m" and "extractMessageText m = []"
  shows "saveAndStream e rb pre tp =
     \<lparr>response = ErrorResponse (js ''bad_request:api''),
      effects = pre @ (if msgRole m = js ''user''
                       then [SaveMessage (chatId rb) (msgId m) (js ''user'') (msgParts m)]
                       else [])\<rparr>"
  using assms by (simp add: saveAndStream_def)

lemma saveAndStream2_empty_text:
  assumes "message rb = Some m" and "extractMessageText m = []"
  shows "saveAndStream2 e rb pre tp =
     \<lparr>response = ErrorResponse (js ''bad_request:api''),
      effects = pre @ (if msgRole m = js ''user''
                       then [SaveMessage (chatId rb) (msgId m) (js ''user'') (msgParts m)]
                       else [])\<rparr>"
  using assms by (simp add: saveAndStream2_def)

text \<open>
  C9. The text of a message is empty without parts; the text of one part is its text
  when it is a text part and empty otherwise; the text of two lists of parts in a row
  is the two texts with a line feed between them, or the one text when the other
  list has no text part. When the text of the request's message is empty, the route
  answers with one of its client errors and never calls the backend.
\<close>

theorem empty_text_rejected:
  "(msgParts m = None \<longrightarrow> extractMessageText m = []) \<and>
   extractMessageText (m\<lparr>msgParts := Some [p]\<rparr>) = (if isTextPart p then partText p else []) \<and>
   extractMessageText (m\<lparr>msgParts := Some (ps @ qs)\<rparr>) =
     (if filter isTextPart ps = [] then extractMessageText (m\<lparr>msgParts := Some qs\<rparr>)
      else if filter isTextPart qs = [] then extractMessageText (m\<lparr>msgParts := Some ps\<rparr>)
      else extractMessageText (m\<lparr>msgParts := Some ps\<rparr>) @ [0x0A] @
           extractMessageText (m\<lparr>msgParts := Some qs\<rparr>)) \<and>
   (requestBody e = Some rb \<and> message rb = Some m \<and> extractMessageText m = [] \<longrightarrow>
      (response (POST e) = ErrorResponse (js ''bad_request:api'') \<or>
       response (POST e) = ErrorResponse (js ''unauthorized:chat'') \<or>
       response (POST e) = ErrorResponse (js ''rate_limit:chat'') \<or>
       response (POST e) = ErrorResponse (js ''forbidden:chat'')) \<and>
      \<not> list_ex isFetch (effects (POST e)))"
proof (intro conjI impI)
  show "msgParts m = None \<Longrightarrow> extractMessageText m = []"
    by (simp add: extractMessageText_def)
  show "extractMessageText (m\<lparr>msgParts := Some [p]\<rparr>) = (if isTextPart p then partText p else [])"
    by (simp add: extractMessageText_def)
  show "extractMessageText (m\<lparr>msgParts := Some (ps @ qs)\<rparr>) =
     (if filter isTextPart ps = [] then extractMessageText (m\<lparr>msgParts := Some qs\<rparr>)
      else if filter isTextPart qs = [] then extractMessageText (m\<lparr>msgParts := Some ps\<rparr>)
      else extractMessageText (m\<lparr>msgParts := Some ps\<rparr>) @ [0x0A] @
           extractMessageText (m\<lparr>msgParts := Some qs\<rparr>))"
    by (simp add: extractMessageText_def join_append)
next
  assume h: "requestBody e = Some rb \<and> message rb = Some m \<and> extractMessageText m = []"
  then have S: "saveAndStream e rb pre tp =
     \<lparr>response = ErrorResponse (js ''bad_request:api''),
      effects = pre @ (if msgRole m = js ''user''
                       then [SaveMessage (chatId rb) (msgId m) (js ''user'') (msgParts m)]
                       else [])\<rparr>" for pre tp
    by (simp add: saveAndStream_empty_text)
  show "response (POST e) = ErrorResponse (js ''bad_request:api'') \<or>
       response (POST e) = ErrorResponse (js ''unauthorized:chat'') \<or>
       response (POST e) = ErrorResponse (js ''rate_limit:chat'') \<or>
       response (POST e) = ErrorResponse (js ''forbidden:chat'')"
    using h by (auto simp: POST_def S split: option.splits)
  show "\<not> list_ex isFetch (effects (POST e))"
    using h by (auto simp: POST_def S split: option.splits)
qed

theorem empty_text_rejected_witness:
  "msgParts ((exampleMessage [])\<lparr>msgParts := None\<rparr>) = None \<and>
   extractMessageText ((exampleMessage [])\<lparr>msgParts := None\<rparr>) = [] \<and>
   extractMessageText
     ((exampleMessage [])\<lparr>msgParts :=
        Some ([\<lparr>ptype = js ''text'', ptext = Some (js ''a'')\<rparr>,
               \<lparr>ptype = js ''file'', ptext = None\<rparr>] @
              [\<lparr>ptype = js ''text'', ptext = Some (js ''b'')\<rparr>])\<rparr>) = js ''a'' @ [0x0A] @ js ''b'' \<and>
   requestBody (exampleEnv [] Rejected) =
     Some \<lparr>chatId = js ''c1'', message = Some (exampleMessage []),
           selectedVisibilityType = js ''private''\<rparr> \<and>
   extractMessageText (exampleMessage []) = [] \<and>
   response (POST (exampleEnv [] Rejected)) = ErrorResponse (js ''bad_request:api'') \<and>
   \<not> list_ex isFetch (effects (POST (exampleEnv [] Rejected)))"
proof -
  have P: "POST (exampleEnv [] Rejected) =
     \<lparr>response = ErrorResponse (js ''bad_request:api''),
      effects =
        [SaveChat (js ''c1'') (js ''alice'') (js ''New chat'') (js ''private''),
         GenerateTitle (exampleMessage []),
         SaveMessage (js ''c1'') (js ''u1'') (js ''user'')
           (Some [\<lparr>ptype = js ''text'', ptext = Some []\<rparr>])]\<rparr>"
    by (simp add: POST_def exampleEnv_fields exampleMessage_fields
          saveAndStream_empty_text [OF _ extractMessageText_example])
  from empty_text_rejected [of "(exampleMessage [])\<lparr>msgParts := None\<rparr>"]
    empty_text_rejected [of "exampleMessage []" _
      "[\<lparr>ptype = js ''text'', ptext = Some (js ''a'')\<rparr>, \<lparr>ptype = js ''file'', ptext = None\<rparr>]"
      "[\<lparr>ptype = js ''text'', ptext = Some (js ''b'')\<rparr>]"]
    empty_text_rejected [of "exampleMessage []" _ _ _ "exampleEnv [] Rejected"
      "\<lparr>chatId = js ''c1'', message = Some (exampleMessage []),
        selectedVisibilityType = js ''private''\<rparr>"]
  show ?thesis
    by (simp add: P exampleEnv_fields extractMessageText_example)
       (simp add: extractMessageText_def isTextPart_def partText_def js_def)
qed

text \<open>
  C10. For a request that reaches the validation of the text (the backend is
  configured, the user is signed in and within the limit, the chat is new or the
  user's own) with a message of role \<open>user\<close> and an empty text, both routes answer
  \<open>bad_request:api\<close> after they have saved the user's message and, for a new chat,
  after they have created the chat and asked for a title: the calls made are not none.
\<close>

theorem empty_text_after_save:
  assumes "requestBody e = Some rb" and "message rb = Some m" and "msgRole m = js ''user''"
    and "extractMessageText m = []"
    and "backendUrl e" and "session e = Some u"
    and "\<not> messageCount e > maxMessagesPerDay e (userType u)"
    and "storedChatOwner e = None \<or> storedChatOwner e = Some (userId u)"
  shows "POST e =
     \<lparr>response = ErrorResponse (js ''bad_request:api''),
      effects =
        (if storedChatOwner e = None
         then [SaveChat (chatId rb) (userId u) (js ''New chat'') (selectedVisibilityType rb),
               GenerateTitle m]
         else []) @
        [SaveMessage (chatId rb) (msgId m) (js ''user'') (msgParts m)]\<rparr> \<and>
   POST2 e = POST e \<and> effects (POST e) \<noteq> []"
  using assms
  by (auto simp: POST_def POST2_def saveAndStream_empty_text saveAndStream2_empty_text)

theorem empty_text_after_save_witness:
  "requestBody (exampleEnv [] Rejected) =
     Some \<lparr>chatId = js ''c1'', message = Some (exampleMessage []),
           selectedVisibilityType = js ''private''\<rparr> \<and>
   msgRole (exampleMessage []) = js ''user'' \<and>
   extractMessageText (exampleMessage []) = [] \<and>
   backendUrl (exampleEnv [] Rejected) \<and>
   session (exampleEnv [] Rejected) = Some \<lparr>userId = js ''alice'', userType = js ''regular''\<rparr> \<and>
   \<not> messageCount (exampleEnv [] Rejected) > maxMessagesPerDay (exampleEnv [] Rejected) (js ''regular'') \<and>
   storedChatOwner (exampleEnv [] Rejected) = None \<and>
   POST (exampleEnv [] Rejected) =
     \<lparr>response = ErrorResponse (js ''bad_request:api''),
      effects =
        [SaveChat (js ''c1'') (js ''alice'') (js ''New chat'') (js ''private''),
         GenerateTitle (exampleMessage []),
         SaveMessage (js ''c1'') (js ''u1'') (js ''user'')
           (Some [\<lparr>ptype = js ''text'', ptext = Some []\<rparr>])]\<rparr> \<and>
   POST2 (exampleEnv [] Rejected) = POST (exampleEnv [] Rejected)"
  using empty_text_after_save [of "exampleEnv [] Rejected"
      "\<lparr>chatId = js ''c1'', message = Some (exampleMessage []),
        selectedVisibilityType = js ''private''\<rparr>" "exampleMessage []"
      "\<lparr>userId = js ''alice'', userType = js ''regular''\<rparr>"]
  by (simp add: exampleEnv_fields exampleMessage_fields extractMessageText_example)

section \<open>A body of agent frames\<close>

lemma agentFrame_transformLine:
  assumes "payload line = Some data" and "agentFrame p data c" and "c \<noteq> []"
  shows "transformLine p t st line =
           (True, (if \<not> st then [TextStart t] else []) @ [TextDelta t c])"
proof -
  from assms(2) obtain parsed where
    d: "data \<noteq> js ''[DONE]''" and pd: "p data = Some parsed"
    and ty: "getProp parsed (js ''type'') \<noteq> Some (JStr (js ''ping''))"
    and ag: "isAgentNode parsed"
    and co: "getProp parsed (js ''content'') = Some (JStr c)"
    by (auto simp: agentFrame_def split: option.splits)
  have nn: "parsed \<noteq> JNull" using ag by (auto simp: isAgentNode_def)
  have cs: "contentString parsed = Some c" using co assms(3) by (simp add: contentString_def)
  show ?thesis
    using assms(1) d pd ty ag nn cs by (simp add: transformLine_def)
qed

lemma transformLine_no_payload: "payload line = None \<Longrightarrow> transformLine p t st line = (st, [])"
  by (simp add: transformLine_def)

lemma transformLine_sentinel:
  "payload line = Some (js ''[DONE]'') \<Longrightarrow> transformLine p t st line = (st, [])"
  by (simp add: transformLine_def)

lemma transformLines_agent_frames:
  assumes "list_all2 (agentFrame p)
             (filter (\<lambda>data. data \<noteq> js ''[DONE]'') (List.map_filter payload lines)) cs"
    and "[] \<notin> set cs"
  shows "transformLines p t st lines =
           (st \<or> cs \<noteq> [], (if \<not> st \<and> cs \<noteq> [] then [TextStart t] else []) @ map (TextDelta t) cs)"
  using assms
proof (induction lines arbitrary: st cs)
  case Nil
  then show ?case by simp
next
  case (Cons line lines)
  show ?case
  proof (cases "payload line")
    case None
    with Cons.prems have "list_all2 (agentFrame p)
        (filter (\<lambda>data. data \<noteq> js ''[DONE]'') (List.map_filter payload lines)) cs"
      by simp
    from Cons.IH [OF this Cons.prems(2)] None show ?thesis
      by (simp add: transformLine_no_payload)
  next
    case (Some data)
    show ?thesis
    proof (cases "data = js ''[DONE]''")
      case True
      with Some Cons.prems have "list_all2 (agentFrame p)
          (filter (\<lambda>data. data \<noteq> js ''[DONE]'') (List.map_filter payload lines)) cs"
        by simp
      from Cons.IH [OF this Cons.prems(2)] Some True show ?thesis
        by (simp add: transformLine_sentinel)
    next
      case False
      with Some Cons.prems(1) obtain c cs' where cs: "cs = c # cs'" and f: "agentFrame p data c"
        and rest: "list_all2 (agentFrame p)
          (filter (\<lambda>data. data \<noteq> js ''[DONE]'') (List.map_filter payload lines)) cs'"
        by (auto simp: list_all2_Cons1)
      have c: "c \<noteq> []" and cs': "[] \<notin> set cs'" using Cons.prems(2) cs by auto
      from Cons.IH [OF rest cs', of True] agentFrame_transformLine [OF Some f c, of t st]
      show ?thesis by (simp add: cs)
    qed
  qed
qed

text \<open>
  C1, as amended. When the route streams a body whose reads all give chunks and whose
  payloads, the sentinel \<open>[DONE]\<close> apart, are one and all node-tagged content frames
  of the agent or model node, at least one of them and none with an empty content,
  the client is sent \<open>Start\<close>, one \<open>TextStart\<close>, one \<open>TextDelta\<close> per frame with the content
  of the frame as its delta, one \<open>TextEnd\<close>, \<open>Finish\<close> with the reason \<open>stop\<close> and
  \<open>Done\<close>, and nothing else.
\<close>

theorem agent_frames_stream:
  assumes "response (POST e) = StreamResponse w"
    and "fetched e = Resolved r" and "body r = Some (map Chunk vs)"
    and "list_all2 (agentFrame (jsonParse e))
           (filter (\<lambda>data. data \<noteq> js ''[DONE]'') (decodedPayloads newTextDecoder [] vs)) cs"
    and "cs \<noteq> []" and "[] \<notin> set cs"
  shows "clientEvents w =
           [Start (assistantMessageId e), TextStart (textId e)] @
           map (TextDelta (textId e)) cs @
           [TextEnd (textId e), Finish (js ''stop''), Done]"
proof -
  from POST_stream_closed [OF assms(1)] assms(2,3)
  obtain evs c where
    T: "transformBackendStream (jsonParse e) (Some (map Chunk vs)) (assistantMessageId e) (textId e) = (evs, c)"
    and w: "w = map Data (Start (assistantMessageId e) # evs @ terminal c) @ [Close]"
    by auto
  have frames: "list_all2 (agentFrame (jsonParse e))
      (filter (\<lambda>data. data \<noteq> js ''[DONE]'')
         (List.map_filter payload (upstreamLines (concat vs)))) cs"
    using assms(4) by (simp add: decodedPayloads_concat upstreamLines_def split: prod.splits)
  have "transformLines (jsonParse e) (textId e) False (upstreamLines (concat vs)) =
      (True, TextStart (textId e) # map (TextDelta (textId e)) cs)"
    using transformLines_agent_frames [OF frames assms(6), of "textId e" False] assms(5) by simp
  then have "evs = TextStart (textId e) # map (TextDelta (textId e)) cs @ [TextEnd (textId e)]"
    and "c = Returned"
    using T by (simp_all add: transformBackendStream_chunks)
  then show ?thesis
    unfolding w clientEvents_Data by (simp add: terminal_def)
qed

theorem agent_frames_stream_witness:
  \<open>response (POST (exampleEnv (js ''What is 2+2?'')
        (Resolved \<lparr>status = 200,
           body = Some [Chunk (ascii ''data: {"node":"model","content":"4"}'' @ [0x0A, 0x0A]),
                        Chunk (ascii ''data: [DONE]'' @ [0x0A, 0x0A])]\<rparr>))) =
     StreamResponse
       [Data (Start (js ''a1'')), Data (TextStart (js ''t1'')), Data (TextDelta (js ''t1'') (js ''4'')),
        Data (TextEnd (js ''t1'')), Data (Finish (js ''stop'')), Data Done, Close] \<and>
   decodedPayloads newTextDecoder []
       [ascii ''data: {"node":"model","content":"4"}'' @ [0x0A, 0x0A],
        ascii ''data: [DONE]'' @ [0x0A, 0x0A]] =
     [js ''{"node":"model","content":"4"}'', js ''[DONE]''] \<and>
   filter (\<lambda>data. data \<noteq> js ''[DONE]'') [js ''{"node":"model","content":"4"}'', js ''[DONE]''] =
     [js ''{"node":"model","content":"4"}''] \<and>
   list_all2 (agentFrame exampleParse) [js ''{"node":"model","content":"4"}''] [js ''4''] \<and>
   [js ''4''] \<noteq> [] \<and> [] \<notin> set [js ''4''] \<and>
   clientEvents
       [Data (Start (js ''a1'')), Data (TextStart (js ''t1'')), Data (TextDelta (js ''t1'') (js ''4'')),
        Data (TextEnd (js ''t1'')), Data (Finish (js ''stop'')), Data Done, Close] =
     [Start (js ''a1''), TextStart (js ''t1'')] @ map (TextDelta (js ''t1'')) [js ''4''] @
     [TextEnd (js ''t1''), Finish (js ''stop''), Done]\<close>
proof -
  let ?vs = \<open>[ascii ''data: {"node":"model","content":"4"}'' @ [0x0A, 0x0A],
               ascii ''data: [DONE]'' @ [0x0A, 0x0A]]\<close>
  let ?reads = \<open>[Chunk (ascii ''data: {"node":"model","content":"4"}'' @ [0x0A, 0x0A]),
                  Chunk (ascii ''data: [DONE]'' @ [0x0A, 0x0A])]\<close>
  let ?e = "exampleEnv (js ''What is 2+2?'') (Resolved \<lparr>status = 200, body = Some ?reads\<rparr>)"
  let ?w = "[Data (Start (js ''a1'')), Data (TextStart (js ''t1'')), Data (TextDelta (js ''t1'') (js ''4'')),
        Data (TextEnd (js ''t1'')), Data (Finish (js ''stop'')), Data Done, Close]"
  have W: "response (POST ?e) = StreamResponse ?w"
    using POST_exampleEnv [OF example_text_ne transformBackendStream_example_4]
    by (simp add: terminal_def)
  have D: \<open>decodedPayloads newTextDecoder [] ?vs =
     [js ''{"node":"model","content":"4"}'', js ''[DONE]'']\<close>
    by (simp add: nextLines_def decode_def newTextDecoder_def utf8Handler_def utf8Lead_def
          utf16_def ascii_def payload_def js_def trim_def isWhiteSpace_def)
  have S: \<open>filter (\<lambda>data. data \<noteq> js ''[DONE]'') [js ''{"node":"model","content":"4"}'', js ''[DONE]''] =
     [js ''{"node":"model","content":"4"}'']\<close>
    by (simp add: js_def)
  have F: \<open>list_all2 (agentFrame exampleParse) [js ''{"node":"model","content":"4"}''] [js ''4'']\<close>
    by (simp add: agentFrame_def exampleParse_def isAgentNode_def js_def)
  have F': "list_all2 (agentFrame (jsonParse ?e))
      (filter (\<lambda>data. data \<noteq> js ''[DONE]'') (decodedPayloads newTextDecoder [] ?vs)) [js ''4'']"
    unfolding D S exampleEnv_fields by (rule F)
  have ne: "[] \<notin> set [js ''4'']" by (simp add: js_def)
  have ne': "[js ''4''] \<noteq> []" by simp
  have B: "body \<lparr>status = 200, body = Some ?reads\<rparr> = Some (map Chunk ?vs)" by simp
  from agent_frames_stream [OF W exampleEnv_fields(7) B F' ne' ne]
  have C: "clientEvents ?w =
     [Start (js ''a1''), TextStart (js ''t1'')] @ map (TextDelta (js ''t1'')) [js ''4''] @
     [TextEnd (js ''t1''), Finish (js ''stop''), Done]"
    by (simp add: exampleEnv_fields)
  show ?thesis by (intro conjI W D S F ne' ne C)
qed

text \<open>
  C1 as stated fails: a single frame of the agent node with the empty content, and
  likewise a body without frames, gives neither \<open>TextStart\<close> nor \<open>TextDelta\<close> nor
  \<open>TextEnd\<close>.
\<close>

theorem agent_frames_without_text:
  \<open>decodedPayloads newTextDecoder [] [ascii ''data: {"node":"agent","content":""}'' @ [0x0A, 0x0A]] =
     [js ''{"node":"agent","content":""}''] \<and>
   list_all2 (agentFrame exampleParse) [js ''{"node":"agent","content":""}''] [[]] \<and>
   response (POST (exampleEnv (js ''What is 2+2?'')
        (Resolved \<lparr>status = 200,
           body = Some [Chunk (ascii ''data: {"node":"agent","content":""}'' @ [0x0A, 0x0A])]\<rparr>))) =
     StreamResponse [Data (Start (js ''a1'')), Data (Finish (js ''stop'')), Data Done, Close] \<and>
   decodedPayloads newTextDecoder [] [] = [] \<and>
   list_all2 (agentFrame exampleParse) [] [] \<and>
   response (POST (exampleEnv (js ''What is 2+2?'') (Resolved \<lparr>status = 200, body = Some []\<rparr>))) =
     StreamResponse [Data (Start (js ''a1'')), Data (Finish (js ''stop'')), Data Done, Close]\<close>
proof -
  have D: \<open>decodedPayloads newTextDecoder [] [ascii ''data: {"node":"agent","content":""}'' @ [0x0A, 0x0A]] =
     [js ''{"node":"agent","content":""}'']\<close>
    by (simp add: nextLines_def decode_def newTextDecoder_def utf8Handler_def utf8Lead_def
          utf16_def ascii_def payload_def js_def trim_def isWhiteSpace_def)
  have F: \<open>list_all2 (agentFrame exampleParse) [js ''{"node":"agent","content":""}''] [[]]\<close>
    by (simp add: agentFrame_def exampleParse_def isAgentNode_def js_def)
  have T1: \<open>transformBackendStream exampleParse
      (Some [Chunk (ascii ''data: {"node":"agent","content":""}'' @ [0x0A, 0x0A])]) (js ''a1'') (js ''t1'') =
    ([], Returned)\<close>
    by (simp add: transformBackendStream_def initialState_def newTextDecoder_def transformChunk_def
        nextLines_def decode_def utf8Handler_def utf8Lead_def utf16_def ascii_def
        transformLine_def payload_def trim_def isWhiteSpace_def js_def exampleParse_def
        contentString_def isAgentNode_def)
  have T2: "transformBackendStream exampleParse (Some []) (js ''a1'') (js ''t1'') = ([], Returned)"
    by (simp add: transformBackendStream_def initialState_def)
  have P1: \<open>response (POST (exampleEnv (js ''What is 2+2?'')
        (Resolved \<lparr>status = 200,
           body = Some [Chunk (ascii ''data: {"node":"agent","content":""}'' @ [0x0A, 0x0A])]\<rparr>))) =
     StreamResponse [Data (Start (js ''a1'')), Data (Finish (js ''stop'')), Data Done, Close]\<close>
    by (simp add: POST_exampleEnv [OF example_text_ne T1] terminal_def)
  have P2: "response (POST (exampleEnv (js ''What is 2+2?'') (Resolved \<lparr>status = 200, body = Some []\<rparr>))) =
     StreamResponse [Data (Start (js ''a1'')), Data (Finish (js ''stop'')), Data Done, Close]"
    by (simp add: POST_exampleEnv [OF example_text_ne T2] terminal_def)
  have D0: "decodedPayloads newTextDecoder [] [] = []" by simp
  have F0: "list_all2 (agentFrame exampleParse) [] []" by simp
  show ?thesis
    by (intro conjI D F P1 D0 F0 P2)
qed

section \<open>The order of the events\<close>

lemma transformLine_spanOk:
  "transformLine p t st line = (st1, e1) \<Longrightarrow>
   spanOk t st e1 \<and> st1 = (st \<or> TextStart t \<in> set e1)"
  by (auto simp: transformLine_def split: option.splits if_splits)

lemma spanOk_append:
  "spanOk t st e1 \<Longrightarrow> spanOk t (st \<or> TextStart t \<in> set e1) e2 \<Longrightarrow> spanOk t st (e1 @ e2)"
  by (induction t st e1 rule: spanOk.induct) auto

lemma transformLines_spanOk:
  "transformLines p t st lines = (st', evs) \<Longrightarrow>
   spanOk t st evs \<and> st' = (st \<or> TextStart t \<in> set evs)"
proof (induction lines arbitrary: st st' evs)
  case Nil
  then show ?case by simp
next
  case (Cons line lines)
  obtain st1 e1 where l: "transformLine p t st line = (st1, e1)"
    by (cases "transformLine p t st line")
  obtain st2 e2 where r: "transformLines p t st1 lines = (st2, e2)"
    by (cases "transformLines p t st1 lines")
  from transformLine_spanOk [OF l] Cons.IH [OF r] Cons.prems l r
  show ?case by (auto intro: spanOk_append)
qed

lemma spanOk_delta_id: "spanOk t st evs \<Longrightarrow> TextDelta i delta \<in> set evs \<Longrightarrow> i = t"
  by (induction t st evs rule: spanOk.induct) auto

lemma spanOk_no_end: "spanOk t st evs \<Longrightarrow> TextEnd i \<notin> set evs"
  by (induction t st evs rule: spanOk.induct) auto

lemma spanOk_no_finish: "spanOk t st evs \<Longrightarrow> filter isFinish evs = []"
  by (induction t st evs rule: spanOk.induct) auto

lemma spanOk_no_done: "spanOk t st evs \<Longrightarrow> count_list evs Done = 0"
  by (induction t st evs rule: spanOk.induct) auto

lemma spanOk_start_before_delta:
  "spanOk t st evs \<Longrightarrow> evs = pre @ TextDelta i delta # post \<Longrightarrow> st \<or> TextStart i \<in> set pre"
proof (induction pre arbitrary: st evs)
  case Nil
  then show ?case by simp
next
  case (Cons ev pre)
  have i: "i = t" using spanOk_delta_id [OF Cons.prems(1), of i delta] Cons.prems(2) by simp
  from Cons.prems show ?case
    using Cons.IH [of _ "pre @ TextDelta i delta # post"] i
    by (cases ev) auto
qed

lemma split_in_left:
  "xs @ ys = pre @ a # post \<Longrightarrow> a \<notin> set ys \<Longrightarrow> \<exists>post'. xs = pre @ a # post' \<and> post = post' @ ys"
  by (auto simp: append_eq_append_conv2 append_eq_Cons_conv)

lemma split_in_right:
  "xs @ ys = pre @ a # post \<Longrightarrow> a \<notin> set xs \<Longrightarrow> \<exists>pre'. pre = xs @ pre' \<and> ys = pre' @ a # post"
  by (auto simp: append_eq_append_conv2 Cons_eq_append_conv append_eq_Cons_conv)

lemma terminal_facts:
  "TextDelta i delta \<notin> set (terminal c)" "TextEnd i \<notin> set (terminal c)"
  "length (filter isFinish (terminal c)) = 1" "count_list (terminal c) Done = 1"
  "\<exists>front reason. terminal c = front @ [Finish reason, Done]"
  by (auto simp: terminal_def)

lemma orderingInvariant_stream:
  assumes L: "spanOk t False evs" and E: "tail = [] \<or> tail = [TextEnd t]"
  shows "orderingInvariant (Start m # evs @ tail @ terminal c)"
  unfolding orderingInvariant_def
proof (intro conjI allI impI)
  fix pre i delta post
  assume eq: "Start m # evs @ tail @ terminal c = pre @ TextDelta i delta # post"
  have nt: "TextDelta i delta \<notin> set (tail @ terminal c)"
    using E terminal_facts(1) by auto
  from eq obtain pre' where p: "pre = Start m # pre'"
    and eq': "evs @ (tail @ terminal c) = pre' @ TextDelta i delta # post"
    by (cases pre) auto
  from split_in_left [OF eq' nt] obtain post' where "evs = pre' @ TextDelta i delta # post'"
    by blast
  from spanOk_start_before_delta [OF L this] show "TextStart i \<in> set pre"
    by (simp add: p)
next
  fix pre i post
  assume eq: "Start m # evs @ tail @ terminal c = pre @ TextEnd i # post"
  have n1: "TextEnd i \<notin> set (Start m # evs)"
    using spanOk_no_end [OF L] by simp
  from eq have "(Start m # evs) @ (tail @ terminal c) = pre @ TextEnd i # post" by simp
  from split_in_right [OF this n1] obtain pre' where p: "pre = (Start m # evs) @ pre'"
    and eq': "tail @ terminal c = pre' @ TextEnd i # post"
    by blast
  from split_in_left [OF eq' terminal_facts(2)] obtain post' where
    t: "tail = pre' @ TextEnd i # post'" and po: "post = post' @ terminal c"
    by blast
  from t E have "pre' = []" "post' = []" by (auto simp: append_eq_Cons_conv Cons_eq_append_conv)
  with p po n1 terminal_facts(1) show "TextEnd i \<notin> set pre" and "\<And>delta. TextDelta i delta \<notin> set post"
    by auto
next
  show "length (filter isFinish (Start m # evs @ tail @ terminal c)) = 1"
    using spanOk_no_finish [OF L] E terminal_facts(3) [of c] by auto
  show "count_list (Start m # evs @ tail @ terminal c) Done = 1"
    using spanOk_no_done [OF L] E terminal_facts(4) [of c] by auto
  from terminal_facts(5) [of c] obtain front reason where "terminal c = front @ [Finish reason, Done]"
    by blast
  then have "Start m # evs @ tail @ terminal c = (Start m # evs @ tail @ front) @ [Finish reason, Done]"
    by simp
  then show "\<exists>front reason. Start m # evs @ tail @ terminal c = front @ [Finish reason, Done]"
    by blast
qed

text \<open>
  C4, as amended. Whenever the first route answers with a stream, whatever the
  backend's body and whether or not a read fails, the events sent to the client keep
  the ordering invariant: a \<open>TextStart\<close> precedes any \<open>TextDelta\<close> of its id, a \<open>TextEnd\<close>
  comes at most once and after the last \<open>TextDelta\<close> of its id, and \<open>Finish\<close> and \<open>Done\<close>
  come once each and are the last two events.
\<close>

theorem ordering_invariant:
  assumes "response (POST e) = StreamResponse w"
  shows "orderingInvariant (clientEvents w)"
proof -
  from POST_stream_closed [OF assms]
  obtain reads evs c where
    T: "transformBackendStream (jsonParse e) (Some reads) (assistantMessageId e) (textId e) = (evs, c)"
    and w: "w = map Data (Start (assistantMessageId e) # evs @ terminal c) @ [Close]"
    by blast
  obtain started L where
    L: "transformLines (jsonParse e) (textId e) False (upstreamLines (concat (chunksRead reads))) = (started, L)"
    by (cases "transformLines (jsonParse e) (textId e) False (upstreamLines (concat (chunksRead reads)))")
  from transformLines_spanOk [OF L] have ok: "spanOk (textId e) False L" by simp
  from T L obtain tail where evs: "evs = L @ tail" and tail: "tail = [] \<or> tail = [TextEnd (textId e)]"
    by (auto simp: transformBackendStream_eq split: if_splits)
  have "clientEvents w = Start (assistantMessageId e) # L @ tail @ terminal c"
    unfolding w clientEvents_Data by (simp add: evs)
  then show ?thesis
    using orderingInvariant_stream [OF ok tail] by simp
qed


theorem ordering_invariant_witness:
  \<open>response (POST (exampleEnv (js ''What is 2+2?'')
        (Resolved \<lparr>status = 200,
           body = Some [Chunk (ascii ''data: {"node":"model","content":"4"}'' @ [0x0A, 0x0A]),
                        Chunk (ascii ''data: [DONE]'' @ [0x0A, 0x0A])]\<rparr>))) =
     StreamResponse
       [Data (Start (js ''a1'')), Data (TextStart (js ''t1'')), Data (TextDelta (js ''t1'') (js ''4'')),
        Data (TextEnd (js ''t1'')), Data (Finish (js ''stop'')), Data Done, Close] \<and>
   orderingInvariant
     [Start (js ''a1''), TextStart (js ''t1''), TextDelta (js ''t1'') (js ''4''),
      TextEnd (js ''t1''), Finish (js ''stop''), Done]\<close>
proof -
  let ?w = "[Data (Start (js ''a1'')), Data (TextStart (js ''t1'')), Data (TextDelta (js ''t1'') (js ''4'')),
        Data (TextEnd (js ''t1'')), Data (Finish (js ''stop'')), Data Done, Close]"
  have W: \<open>response (POST (exampleEnv (js ''What is 2+2?'')
        (Resolved \<lparr>status = 200,
           body = Some [Chunk (ascii ''data: {"node":"model","content":"4"}'' @ [0x0A, 0x0A]),
                        Chunk (ascii ''data: [DONE]'' @ [0x0A, 0x0A])]\<rparr>))) = StreamResponse ?w\<close>
    using POST_exampleEnv [OF example_text_ne transformBackendStream_example_4]
    by (simp add: terminal_def)
  have C: "clientEvents ?w =
     [Start (js ''a1''), TextStart (js ''t1''), TextDelta (js ''t1'') (js ''4''),
      TextEnd (js ''t1''), Finish (js ''stop''), Done]"
    by (simp add: clientEvents_def)
  from ordering_invariant [OF W] have "orderingInvariant (clientEvents ?w)" .
  then have I: "orderingInvariant
     [Start (js ''a1''), TextStart (js ''t1''), TextDelta (js ''t1'') (js ''4''),
      TextEnd (js ''t1''), Finish (js ''stop''), Done]"
    unfolding C .
  show ?thesis by (intro conjI W I)
qed

text \<open>
  C4 as stated fails on the second route, which sends neither \<open>TextStart\<close> nor
  \<open>TextEnd\<close> nor \<open>Done\<close>: for a body with one content and the sentinel the client is
  sent \<open>message-start\<close>, the delta, \<open>Finish\<close> and the title of the chat.
\<close>

lemma transformBackendStream2_example:
  \<open>transformBackendStream2 exampleParse (\<lambda>n. js ''NaN'')
      (Some [Chunk (ascii ''data: {"output":"Hi"}'' @ [0x0A, 0x0A]),
             Chunk (ascii ''data: [DONE]'' @ [0x0A, 0x0A])]) =
    ([TextDeltaPlain (js ''Hi''), Finish (js ''stop'')], Returned)\<close>
  by (simp add: transformBackendStream2_def initialState2_def newTextDecoder_def transformChunk2_def
        nextLines_def decode_def utf8Handler_def utf8Lead_def utf16_def ascii_def
        transformLine2_def payload_def trim_def isWhiteSpace_def js_def exampleParse_def
        extractContent_def contentString_def emitDelta_def Let_def)

theorem second_route_no_done:
  \<open>response (POST2 (exampleEnv (js ''What is 2+2?'')
        (Resolved \<lparr>status = 200,
           body = Some [Chunk (ascii ''data: {"output":"Hi"}'' @ [0x0A, 0x0A]),
                        Chunk (ascii ''data: [DONE]'' @ [0x0A, 0x0A])]\<rparr>))) =
     StreamResponse
       [Data (MessageStart (js ''a1'')), Data (TextDeltaPlain (js ''Hi'')),
        Data (Finish (js ''stop'')), Data (ChatTitle (js ''Sum'')), Close] \<and>
   clientEvents
       [Data (MessageStart (js ''a1'')), Data (TextDeltaPlain (js ''Hi'')),
        Data (Finish (js ''stop'')), Data (ChatTitle (js ''Sum'')), Close] =
     [MessageStart (js ''a1''), TextDeltaPlain (js ''Hi''), Finish (js ''stop''), ChatTitle (js ''Sum'')] \<and>
   \<not> orderingInvariant
       [MessageStart (js ''a1''), TextDeltaPlain (js ''Hi''), Finish (js ''stop''), ChatTitle (js ''Sum'')]\<close>
proof -
  let ?reads = \<open>[Chunk (ascii ''data: {"output":"Hi"}'' @ [0x0A, 0x0A]),
                 Chunk (ascii ''data: [DONE]'' @ [0x0A, 0x0A])]\<close>
  let ?e = "exampleEnv (js ''What is 2+2?'') (Resolved \<lparr>status = 200, body = Some ?reads\<rparr>)"
  have T: "transformBackendStream2 (jsonParse ?e) (indexKey ?e) (Some ?reads) =
      ([TextDeltaPlain (js ''Hi''), Finish (js ''stop'')], Returned)"
    using transformBackendStream2_example by (simp add: exampleEnv_fields)
  have hi: "js ''Hi'' \<noteq> []" by (simp add: js_def)
  have cap: "captured exampleStringify (TextDeltaPlain (js ''Hi'')) = js ''Hi''"
    "captured exampleStringify (Finish (js ''stop'')) = []"
    by (simp_all add: captured_def exampleStringify_def js_def)
  have S: "streamStart2 ?e (js ''c1'') True (Some ?reads) =
     ([Data (MessageStart (js ''a1'')), Data (TextDeltaPlain (js ''Hi'')),
        Data (Finish (js ''stop'')), Data (ChatTitle (js ''Sum'')), Close],
      [SaveMessage (js ''c1'') (js ''a1'') (js ''assistant'')
         (Some [\<lparr>ptype = js ''text'', ptext = Some (js ''Hi'')\<rparr>]),
       UpdateChatTitle (js ''c1'') (js ''Sum'')])"
    unfolding streamStart2_def T
    by (simp add: cap hi Let_def exampleEnv_fields)
  have P: "response (POST2 ?e) = StreamResponse
       [Data (MessageStart (js ''a1'')), Data (TextDeltaPlain (js ''Hi'')),
        Data (Finish (js ''stop'')), Data (ChatTitle (js ''Sum'')), Close]"
    using example_text_ne
    by (simp add: POST2_def saveAndStream2_def callRenderBackend_def Let_def exampleEnv_fields
          exampleMessage_fields extractMessageText_example S)
  have C: "clientEvents
       [Data (MessageStart (js ''a1'')), Data (TextDeltaPlain (js ''Hi'')),
        Data (Finish (js ''stop'')), Data (ChatTitle (js ''Sum'')), Close] =
     [MessageStart (js ''a1''), TextDeltaPlain (js ''Hi''), Finish (js ''stop''), ChatTitle (js ''Sum'')]"
    by (simp add: clientEvents_def)
  have N: "\<not> orderingInvariant
       [MessageStart (js ''a1''), TextDeltaPlain (js ''Hi''), Finish (js ''stop''), ChatTitle (js ''Sum'')]"
    by (simp add: orderingInvariant_def)
  show ?thesis by (intro conjI P C N)
qed

section \<open>Whole-content diffing (second route)\<close>

lemma transformLines2_append:
  "transformLines2 p k prev (xs @ ys) =
     (let (l1, e1) = transformLines2 p k prev xs;
          (l2, e2) = transformLines2 p k l1 ys
      in (l2, e1 @ e2))"
  by (induction xs arbitrary: prev) (auto split: prod.splits)

lemma transformChunk2_append:
  "transformChunk2 p k s (a @ b) =
     (let (s1, e1) = transformChunk2 p k s a;
          (s2, e2) = transformChunk2 p k s1 b
      in (s2, e1 @ e2))"
  by (simp add: transformChunk2_def nextLines_append transformLines2_append split: prod.splits)

lemma transformChunk2_Nil: "0x0A \<notin> set (buffer2 s) \<Longrightarrow> transformChunk2 p k s [] = (s, [])"
  by (simp add: transformChunk2_def nextLines_Nil)

lemma transformChunk2_no_lf:
  "transformChunk2 p k s v = (s', evs) \<Longrightarrow> 0x0A \<notin> set (buffer2 s')"
  using nextLines_no_lf [of "decoder2 s" "buffer2 s" v]
  by (auto simp: transformChunk2_def split: prod.splits)

lemma transformReads2_eq:
  "0x0A \<notin> set (buffer2 s) \<Longrightarrow>
   transformReads2 p k s reads =
     (snd (transformChunk2 p k s (concat (chunksRead reads))),
      if ReadError \<in> set reads then Thrown else Returned)"
proof (induction p k s reads rule: transformReads2.induct)
  case (1 parse key s)
  then show ?case by (simp add: transformChunk2_Nil)
next
  case (2 parse key s rs)
  then show ?case by (simp add: transformChunk2_Nil)
next
  case (3 parse key s v rs)
  obtain s1 e1 where c1: "transformChunk2 parse key s v = (s1, e1)"
    by (cases "transformChunk2 parse key s v")
  have nolf: "0x0A \<notin> set (buffer2 s1)" using c1 by (rule transformChunk2_no_lf)
  show ?case
    using "3.IH" [OF c1 [symmetric] refl nolf] c1
    by (simp add: transformChunk2_append split: prod.splits)
qed

lemma transformBackendStream2_eq:
  "transformBackendStream2 p k (Some reads) =
     (snd (transformLines2 p k [] (upstreamLines (concat (chunksRead reads)))),
      if ReadError \<in> set reads then Thrown else Returned)"
proof -
  have "0x0A \<notin> set (buffer2 initialState2)" by (simp add: initialState2_def)
  then show ?thesis
    by (simp add: transformBackendStream2_def transformReads2_eq)
       (simp add: transformChunk2_def initialState2_def upstreamLines_def split: prod.splits)
qed

lemma emitDelta_spec:
  "emitDelta prev content =
     (let delta = (if prefix prev content then drop (length prev) content else content)
      in if delta = [] then (prev, None) else (content, Some delta))"
  by (auto simp: emitDelta_def Let_def prefix_def)

lemma transformLine2_contentLine:
  assumes "contentLine p k line content"
  shows "transformLine2 p k prev line =
           (fst (emitDelta prev content),
            case snd (emitDelta prev content) of
              None \<Rightarrow> []
            | Some delta \<Rightarrow> [TextDeltaPlain delta])"
  using assms
  by (cases "emitDelta prev content")
     (auto simp: contentLine_def transformLine2_def split: option.splits)

lemma transformLines2_specDeltas:
  assumes "list_all2 (contentLine p k) lines contents"
  shows "transformLines2 p k prev lines =
           (fst (specDeltas prev contents), map TextDeltaPlain (snd (specDeltas prev contents)))"
  using assms
proof (induction lines arbitrary: prev contents)
  case Nil
  then show ?case by simp
next
  case (Cons line lines)
  from Cons.prems obtain c cs where cs: "contents = c # cs" and l: "contentLine p k line c"
    and rest: "list_all2 (contentLine p k) lines cs"
    by (auto simp: list_all2_Cons1)
  show ?case
    using Cons.IH [OF rest] transformLine2_contentLine [OF l, of prev]
    by (simp add: cs emitDelta_spec Let_def split: prod.splits)
qed

lemma second_route_run_hi:
  \<open>transformBackendStream2 exampleParse (\<lambda>n. js ''NaN'')
     (Some [Chunk (ascii ''data: {"output":"Hi"}'' @ [0x0A, 0x0A]),
            Chunk (ascii ''data: {"out''),
            Chunk (ascii ''put":"Hi there"}'' @ [0x0A, 0x0A]),
            Chunk (ascii ''data: {"output":"Hi there!"}'' @ [0x0A, 0x0A]),
            Chunk (ascii ''data: [DONE]'' @ [0x0A, 0x0A])]) =
   ([TextDeltaPlain (js ''Hi''), TextDeltaPlain (js '' there''), TextDeltaPlain (js ''!''),
     Finish (js ''stop'')], Returned)\<close>
  by (simp add: transformBackendStream2_def initialState2_def newTextDecoder_def transformChunk2_def
        nextLines_def decode_def utf8Handler_def utf8Lead_def utf16_def ascii_def
        transformLine2_def payload_def trim_def isWhiteSpace_def js_def exampleParse_def
        extractContent_def contentString_def emitDelta_def Let_def)

lemma second_route_run_bye:
  \<open>transformBackendStream2 exampleParse (\<lambda>n. js ''NaN'')
     (Some [Chunk (ascii ''data: {"output":"Hi"}'' @ [0x0A, 0x0A]),
            Chunk (ascii ''data: {"output":"Bye"}'' @ [0x0A, 0x0A])]) =
   ([TextDeltaPlain (js ''Hi''), TextDeltaPlain (js ''Bye'')], Returned)\<close>
  by (simp add: transformBackendStream2_def initialState2_def newTextDecoder_def transformChunk2_def
        nextLines_def decode_def utf8Handler_def utf8Lead_def utf16_def ascii_def
        transformLine2_def payload_def trim_def isWhiteSpace_def js_def exampleParse_def
        extractContent_def contentString_def emitDelta_def Let_def)

lemma specDeltas_examples:
  "specDeltas [] [js ''Hi'', js ''Hi there'', js ''Hi there!''] =
     (js ''Hi there!'', [js ''Hi'', js '' there'', js ''!''])"
  "specDeltas [] [js ''Hi'', js ''Bye''] = (js ''Bye'', [js ''Hi'', js ''Bye''])"
  by (simp_all add: js_def Let_def)

lemma contentLines_hi:
  \<open>list_all2 (contentLine exampleParse (\<lambda>n. js ''NaN''))
     [js ''data: {"output":"Hi"}'', js ''data: {"output":"Hi there"}'',
      js ''data: {"output":"Hi there!"}'']
     [js ''Hi'', js ''Hi there'', js ''Hi there!'']\<close>
  by (simp add: contentLine_def payload_def trim_def isWhiteSpace_def js_def exampleParse_def
        extractContent_def contentString_def)

lemma POST2_run_hi:
  \<open>response (POST2 (exampleEnv (js ''What is 2+2?'')
     (Resolved \<lparr>status = 200, body =
       Some [Chunk (ascii ''data: {"output":"Hi"}'' @ [0x0A, 0x0A]),
            Chunk (ascii ''data: {"out''),
            Chunk (ascii ''put":"Hi there"}'' @ [0x0A, 0x0A]),
            Chunk (ascii ''data: {"output":"Hi there!"}'' @ [0x0A, 0x0A]),
            Chunk (ascii ''data: [DONE]'' @ [0x0A, 0x0A])]\<rparr>))) =
   StreamResponse
     [Data (MessageStart (js ''a1'')), Data (TextDeltaPlain (js ''Hi'')),
      Data (TextDeltaPlain (js '' there'')), Data (TextDeltaPlain (js ''!'')),
      Data (Finish (js ''stop'')), Data (ChatTitle (js ''Sum'')), Close]\<close>
proof -
  let ?reads = \<open>[Chunk (ascii ''data: {"output":"Hi"}'' @ [0x0A, 0x0A]),
            Chunk (ascii ''data: {"out''),
            Chunk (ascii ''put":"Hi there"}'' @ [0x0A, 0x0A]),
            Chunk (ascii ''data: {"output":"Hi there!"}'' @ [0x0A, 0x0A]),
            Chunk (ascii ''data: [DONE]'' @ [0x0A, 0x0A])]\<close>
  let ?e = "exampleEnv (js ''What is 2+2?'') (Resolved \<lparr>status = 200, body = Some ?reads\<rparr>)"
  have T: "transformBackendStream2 (jsonParse ?e) (indexKey ?e) (Some ?reads) =
      ([TextDeltaPlain (js ''Hi''), TextDeltaPlain (js '' there''), TextDeltaPlain (js ''!''),
        Finish (js ''stop'')], Returned)"
    using second_route_run_hi by (simp add: exampleEnv_fields)
  have cap: "captured exampleStringify (TextDeltaPlain (js ''Hi'')) = js ''Hi''"
    "captured exampleStringify (TextDeltaPlain (js '' there'')) = js '' there''"
    "captured exampleStringify (TextDeltaPlain (js ''!'')) = js ''!''"
    "captured exampleStringify (Finish (js ''stop'')) = []"
    by (simp_all add: captured_def exampleStringify_def js_def)
  have hi: "js ''Hi'' \<noteq> []" by (simp add: js_def)
  have S: "streamStart2 ?e (js ''c1'') True (Some ?reads) =
     ([Data (MessageStart (js ''a1'')), Data (TextDeltaPlain (js ''Hi'')),
      Data (TextDeltaPlain (js '' there'')), Data (TextDeltaPlain (js ''!'')),
      Data (Finish (js ''stop'')), Data (ChatTitle (js ''Sum'')), Close],
      [SaveMessage (js ''c1'') (js ''a1'') (js ''assistant'')
         (Some [\<lparr>ptype = js ''text'', ptext = Some (js ''Hi'' @ js '' there'' @ js ''!'')\<rparr>]),
       UpdateChatTitle (js ''c1'') (js ''Sum'')])"
    unfolding streamStart2_def T
    by (simp add: cap hi Let_def exampleEnv_fields)
  show ?thesis
    using example_text_ne
    by (simp add: POST2_def saveAndStream2_def callRenderBackend_def Let_def exampleEnv_fields
          exampleMessage_fields extractMessageText_example S)
qed

text \<open>
  C5. For a previous content and a new content of the second route: a new content
  that extends the previous one adds the suffix, and one that does not extend it adds
  the whole new content; the delta is yielded as an event when it is not empty, so an
  equal (or empty) content yields nothing; a yielded delta is never empty, and
  \<open>lastContent\<close> becomes the new content exactly when a delta is yielded. A line of
  the loop whose payload has a string content yields the delta of \<open>emitDelta\<close> as a
  \<open>text-delta\<close>. The loop over the lines carries \<open>lastContent\<close> from line to line: on
  lines that carry full contents it yields the deltas of the specification for these
  contents, one after the other; and the generator, on any reads, yields what the
  loop yields on the lines of the chunks read, from the empty \<open>lastContent\<close>. The
  contents \<open>Hi\<close>, \<open>Hi there\<close>, \<open>Hi there!\<close> give the deltas \<open>Hi\<close>, \<open> there\<close>, \<open>!\<close>, and
  \<open>Bye\<close> after \<open>Hi\<close> gives \<open>Bye\<close>: by the specification's deltas, by the generator on
  a body of these frames, and by the second route's \<open>POST\<close>.
\<close>

theorem emitDelta_diff:
  \<open>(prefix prev content \<longrightarrow>
      deltaText (snd (emitDelta prev content)) = drop (length prev) content) \<and>
   (\<not> prefix prev content \<longrightarrow> deltaText (snd (emitDelta prev content)) = content) \<and>
   (prefix prev content \<and> content \<noteq> prev \<longrightarrow>
      emitDelta prev content = (content, Some (drop (length prev) content))) \<and>
   (\<not> prefix prev content \<and> content \<noteq> [] \<longrightarrow>
      emitDelta prev content = (content, Some content)) \<and>
   (content = prev \<or> content = [] \<longrightarrow> emitDelta prev content = (prev, None)) \<and>
   (\<forall>delta. snd (emitDelta prev content) = Some delta \<longrightarrow>
      delta \<noteq> [] \<and> fst (emitDelta prev content) = content) \<and>
   (snd (emitDelta prev content) = None \<longrightarrow> fst (emitDelta prev content) = prev) \<and>
   (payload line = Some data \<and> data \<noteq> js ''[DONE]'' \<and> parse data = Some parsed \<and> parsed \<noteq> JNull \<and>
    extractContent key parsed = Some (JStr content) \<longrightarrow>
      transformLine2 parse key prev line =
        (fst (emitDelta prev content),
         case snd (emitDelta prev content) of
           None \<Rightarrow> []
         | Some delta \<Rightarrow> [TextDeltaPlain delta])) \<and>
   emitDelta [] (js ''Hi'') = (js ''Hi'', Some (js ''Hi'')) \<and>
   emitDelta (js ''Hi'') (js ''Hi there'') = (js ''Hi there'', Some (js '' there'')) \<and>
   emitDelta (js ''Hi there'') (js ''Hi there!'') = (js ''Hi there!'', Some (js ''!'')) \<and>
   emitDelta (js ''Hi'') (js ''Bye'') = (js ''Bye'', Some (js ''Bye'')) \<and>
   (list_all2 (contentLine parse key) lines contents \<longrightarrow>
      transformLines2 parse key prev lines =
        (fst (specDeltas prev contents), map TextDeltaPlain (snd (specDeltas prev contents)))) \<and>
   transformBackendStream2 parse key (Some reads) =
     (snd (transformLines2 parse key [] (upstreamLines (concat (chunksRead reads)))),
      if ReadError \<in> set reads then Thrown else Returned) \<and>
   specDeltas [] [js ''Hi'', js ''Hi there'', js ''Hi there!''] =
     (js ''Hi there!'', [js ''Hi'', js '' there'', js ''!'']) \<and>
   specDeltas [] [js ''Hi'', js ''Bye''] = (js ''Bye'', [js ''Hi'', js ''Bye'']) \<and>
   transformBackendStream2 exampleParse (\<lambda>n. js ''NaN'')
     (Some [Chunk (ascii ''data: {"output":"Hi"}'' @ [0x0A, 0x0A]),
            Chunk (ascii ''data: {"out''),
            Chunk (ascii ''put":"Hi there"}'' @ [0x0A, 0x0A]),
            Chunk (ascii ''data: {"output":"Hi there!"}'' @ [0x0A, 0x0A]),
            Chunk (ascii ''data: [DONE]'' @ [0x0A, 0x0A])]) =
   ([TextDeltaPlain (js ''Hi''), TextDeltaPlain (js '' there''), TextDeltaPlain (js ''!''),
     Finish (js ''stop'')], Returned) \<and>
   transformBackendStream2 exampleParse (\<lambda>n. js ''NaN'')
     (Some [Chunk (ascii ''data: {"output":"Hi"}'' @ [0x0A, 0x0A]),
            Chunk (ascii ''data: {"output":"Bye"}'' @ [0x0A, 0x0A])]) =
   ([TextDeltaPlain (js ''Hi''), TextDeltaPlain (js ''Bye'')], Returned) \<and>
   response (POST2 (exampleEnv (js ''What is 2+2?'')
     (Resolved \<lparr>status = 200, body =
       Some [Chunk (ascii ''data: {"output":"Hi"}'' @ [0x0A, 0x0A]),
            Chunk (ascii ''data: {"out''),
            Chunk (ascii ''put":"Hi there"}'' @ [0x0A, 0x0A]),
            Chunk (ascii ''data: {"output":"Hi there!"}'' @ [0x0A, 0x0A]),
            Chunk (ascii ''data: [DONE]'' @ [0x0A, 0x0A])]\<rparr>))) =
   StreamResponse
     [Data (MessageStart (js ''a1'')), Data (TextDeltaPlain (js ''Hi'')),
      Data (TextDeltaPlain (js '' there'')), Data (TextDeltaPlain (js ''!'')),
      Data (Finish (js ''stop'')), Data (ChatTitle (js ''Sum'')), Close]\<close>
proof (intro conjI)
  show "prefix prev content \<longrightarrow>
      deltaText (snd (emitDelta prev content)) = drop (length prev) content"
    by (auto simp: emitDelta_def Let_def prefix_def)
  show "\<not> prefix prev content \<longrightarrow> deltaText (snd (emitDelta prev content)) = content"
    by (auto simp: emitDelta_def Let_def)
  show "prefix prev content \<and> content \<noteq> prev \<longrightarrow>
      emitDelta prev content = (content, Some (drop (length prev) content))"
    by (auto simp: emitDelta_def prefix_def)
  show "\<not> prefix prev content \<and> content \<noteq> [] \<longrightarrow>
      emitDelta prev content = (content, Some content)"
    by (auto simp: emitDelta_def)
  show "content = prev \<or> content = [] \<longrightarrow> emitDelta prev content = (prev, None)"
    by (auto simp: emitDelta_def)
  show "\<forall>delta. snd (emitDelta prev content) = Some delta \<longrightarrow>
      delta \<noteq> [] \<and> fst (emitDelta prev content) = content"
    by (auto simp: emitDelta_def Let_def split: if_splits)
  show "snd (emitDelta prev content) = None \<longrightarrow> fst (emitDelta prev content) = prev"
    by (auto simp: emitDelta_def Let_def split: if_splits)
  show \<open>payload line = Some data \<and> data \<noteq> js ''[DONE]'' \<and> parse data = Some parsed \<and> parsed \<noteq> JNull \<and>
    extractContent key parsed = Some (JStr content) \<longrightarrow>
      transformLine2 parse key prev line =
        (fst (emitDelta prev content),
         case snd (emitDelta prev content) of
           None \<Rightarrow> []
         | Some delta \<Rightarrow> [TextDeltaPlain delta])\<close>
    by (cases "emitDelta prev content")
       (auto simp: transformLine2_def split: option.splits)
  show "emitDelta [] (js ''Hi'') = (js ''Hi'', Some (js ''Hi''))"
    by (simp add: emitDelta_def js_def Let_def)
  show "emitDelta (js ''Hi'') (js ''Hi there'') = (js ''Hi there'', Some (js '' there''))"
    by (simp add: emitDelta_def js_def Let_def)
  show "emitDelta (js ''Hi there'') (js ''Hi there!'') = (js ''Hi there!'', Some (js ''!''))"
    by (simp add: emitDelta_def js_def Let_def)
  show "emitDelta (js ''Hi'') (js ''Bye'') = (js ''Bye'', Some (js ''Bye''))"
    by (simp add: emitDelta_def js_def Let_def)
  show "list_all2 (contentLine parse key) lines contents \<longrightarrow>
      transformLines2 parse key prev lines =
        (fst (specDeltas prev contents), map TextDeltaPlain (snd (specDeltas prev contents)))"
    by (simp add: transformLines2_specDeltas)
  show "transformBackendStream2 parse key (Some reads) =
     (snd (transformLines2 parse key [] (upstreamLines (concat (chunksRead reads)))),
      if ReadError \<in> set reads then Thrown else Returned)"
    by (rule transformBackendStream2_eq)
qed (rule specDeltas_examples second_route_run_hi second_route_run_bye POST2_run_hi)+


theorem emitDelta_diff_witness:
  \<open>(prefix (js ''Hi'') (js ''Hi there'') \<and> js ''Hi there'' \<noteq> js ''Hi'' \<and>
   emitDelta (js ''Hi'') (js ''Hi there'') = (js ''Hi there'', Some (js '' there'')) \<and>
   \<not> prefix (js ''Hi'') (js ''Bye'') \<and> js ''Bye'' \<noteq> [] \<and>
   emitDelta (js ''Hi'') (js ''Bye'') = (js ''Bye'', Some (js ''Bye'')) \<and>
   emitDelta (js ''Hi'') (js ''Hi'') = (js ''Hi'', None) \<and>
   payload (js ''data: {"output":"Hi"}'') = Some (js ''{"output":"Hi"}'') \<and>
   js ''{"output":"Hi"}'' \<noteq> js ''[DONE]'' \<and>
   exampleParse (js ''{"output":"Hi"}'') = Some (JObj [(js ''output'', JStr (js ''Hi''))]) \<and>
   extractContent (\<lambda>n. js ''NaN'') (JObj [(js ''output'', JStr (js ''Hi''))]) = Some (JStr (js ''Hi'')) \<and>
   transformLine2 exampleParse (\<lambda>n. js ''NaN'') [] (js ''data: {"output":"Hi"}'') =
     (js ''Hi'', [TextDeltaPlain (js ''Hi'')])) \<and>
   list_all2 (contentLine exampleParse (\<lambda>n. js ''NaN''))
     [js ''data: {"output":"Hi"}'', js ''data: {"output":"Hi there"}'',
      js ''data: {"output":"Hi there!"}'']
     [js ''Hi'', js ''Hi there'', js ''Hi there!''] \<and>
   transformLines2 exampleParse (\<lambda>n. js ''NaN'') []
     [js ''data: {"output":"Hi"}'', js ''data: {"output":"Hi there"}'',
      js ''data: {"output":"Hi there!"}''] =
     (js ''Hi there!'',
      [TextDeltaPlain (js ''Hi''), TextDeltaPlain (js '' there''), TextDeltaPlain (js ''!'')])\<close>
proof -
  have A: \<open>prefix (js ''Hi'') (js ''Hi there'') \<and> js ''Hi there'' \<noteq> js ''Hi'' \<and>
   emitDelta (js ''Hi'') (js ''Hi there'') = (js ''Hi there'', Some (js '' there'')) \<and>
   \<not> prefix (js ''Hi'') (js ''Bye'') \<and> js ''Bye'' \<noteq> [] \<and>
   emitDelta (js ''Hi'') (js ''Bye'') = (js ''Bye'', Some (js ''Bye'')) \<and>
   emitDelta (js ''Hi'') (js ''Hi'') = (js ''Hi'', None) \<and>
   payload (js ''data: {"output":"Hi"}'') = Some (js ''{"output":"Hi"}'') \<and>
   js ''{"output":"Hi"}'' \<noteq> js ''[DONE]'' \<and>
   exampleParse (js ''{"output":"Hi"}'') = Some (JObj [(js ''output'', JStr (js ''Hi''))]) \<and>
   extractContent (\<lambda>n. js ''NaN'') (JObj [(js ''output'', JStr (js ''Hi''))]) = Some (JStr (js ''Hi'')) \<and>
   transformLine2 exampleParse (\<lambda>n. js ''NaN'') [] (js ''data: {"output":"Hi"}'') =
     (js ''Hi'', [TextDeltaPlain (js ''Hi'')])\<close>
    using emitDelta_diff [of \<open>js ''Hi''\<close> \<open>js ''Hi there''\<close>]
      emitDelta_diff [of \<open>js ''Hi''\<close> \<open>js ''Bye''\<close>]
      emitDelta_diff [of \<open>js ''Hi''\<close> \<open>js ''Hi''\<close>]
      emitDelta_diff [of \<open>[]\<close> \<open>js ''Hi''\<close> \<open>js ''data: {"output":"Hi"}''\<close>
        \<open>js ''{"output":"Hi"}''\<close> exampleParse \<open>JObj [(js ''output'', JStr (js ''Hi''))]\<close>
        \<open>\<lambda>n. js ''NaN''\<close>]
    by (simp add: js_def payload_def trim_def isWhiteSpace_def exampleParse_def extractContent_def
          contentString_def)
  from emitDelta_diff [where prev = "[]" and parse = exampleParse and key = "\<lambda>n. js ''NaN''"
      and lines = \<open>[js ''data: {"output":"Hi"}'', js ''data: {"output":"Hi there"}'',
      js ''data: {"output":"Hi there!"}'']\<close>
      and contents = "[js ''Hi'', js ''Hi there'', js ''Hi there!'']"]
    contentLines_hi
  have C: \<open>transformLines2 exampleParse (\<lambda>n. js ''NaN'') []
     [js ''data: {"output":"Hi"}'', js ''data: {"output":"Hi there"}'',
      js ''data: {"output":"Hi there!"}''] =
     (js ''Hi there!'',
      [TextDeltaPlain (js ''Hi''), TextDeltaPlain (js '' there''), TextDeltaPlain (js ''!'')])\<close>
    by (simp only: specDeltas_examples fst_conv snd_conv list.map)
  show ?thesis
    by (rule conjI [OF A conjI [OF contentLines_hi C]])
qed

end
